theory Spec2Isabelle
  imports Main
begin

section \<open>Shared vocabulary\<close>

text \<open>
  The repository holds two implementations of the same chess rules: the layered one under
  \<^verbatim>\<open>src/js\<close> (classes Board, Piece and its subclasses, GameState, MoveValidator,
  GameController, PGNService) and the monolithic class ChessGame of
  \<^verbatim>\<open>src/unnamed/part_000\<close> with its PGN functions in \<^verbatim>\<open>src/pgn.js\<close>.
  Both are embedded; a definition is named after the class and the method it translates.
  Coordinates are JavaScript numbers used as array indices and are modelled as \<open>int\<close>;
  row 0 is rank 8 and row 7 is rank 1, column 0 is file a.
\<close>

datatype color = White | Black

datatype kind = Pawn | Knight | Bishop | Rook | Queen | King

text \<open>\<^verbatim>\<open>color === WHITE ? BLACK : WHITE\<close>, written out at several places of both implementations.\<close>

fun opponent :: "color \<Rightarrow> color" where
  "opponent White = Black"
| "opponent Black = White"

text \<open>
  Both implementations keep the board as an array of eight row arrays. A grid is modelled as
  the function from row and column to the cell, and \<open>setCell g r c v\<close> is the assignment
  \<^verbatim>\<open>grid[r][c] = v\<close>.
\<close>

definition setCell :: "(int \<Rightarrow> int \<Rightarrow> 'a) \<Rightarrow> int \<Rightarrow> int \<Rightarrow> 'a \<Rightarrow> (int \<Rightarrow> int \<Rightarrow> 'a)" where
  "setCell g r c v = (\<lambda>row col. if row = r \<and> col = c then v else g row col)"

section \<open>The layered implementation: Piece and Board\<close>

text \<open>
  A Piece object has the fields \<open>type\<close>, \<open>color\<close> and \<open>hasMoved\<close>. Board.clone copies every
  piece with Piece.clone, and no operation ever stores one piece object in two cells, so a
  piece is modelled by its value.
\<close>

record piece =
  ptype :: kind
  pcolor :: color
  hasMoved :: bool

text \<open>
  Board has the single field \<open>grid\<close>, eight row arrays of eight cells, each \<open>null\<close> or a
  piece. Every read and write of the layered code is guarded by isInBounds, so the grid is
  only ever consulted inside the 8x8 square.
\<close>

type_synonym board = "int \<Rightarrow> int \<Rightarrow> piece option"

definition BOARD_SIZE :: int where
  "BOARD_SIZE = 8"

definition Board_isInBounds :: "int \<Rightarrow> int \<Rightarrow> bool" where
  "Board_isInBounds row col = (row \<ge> 0 \<and> row < BOARD_SIZE \<and> col \<ge> 0 \<and> col < BOARD_SIZE)"

definition Board_getPiece :: "board \<Rightarrow> int \<Rightarrow> int \<Rightarrow> piece option" where
  "Board_getPiece b row col = (if \<not> Board_isInBounds row col then None else b row col)"

text \<open>setPiece mutates the grid and returns a boolean: the model returns both.\<close>

definition Board_setPiece :: "board \<Rightarrow> int \<Rightarrow> int \<Rightarrow> piece option \<Rightarrow> bool \<times> board" where
  "Board_setPiece b row col p =
     (if \<not> Board_isInBounds row col then (False, b)
      else (True, setCell b row col p))"

text \<open>
  movePiece returns the captured piece (or \<open>null\<close>) and mutates the grid. The moved piece
  object gets \<open>hasMoved = true\<close>; the source writes the destination cell first and clears the
  source cell second, so a move of a square onto itself leaves the cell empty.
\<close>

definition Board_movePiece :: "board \<Rightarrow> int \<Rightarrow> int \<Rightarrow> int \<Rightarrow> int \<Rightarrow> piece option \<times> board" where
  "Board_movePiece b fromRow fromCol toRow toCol =
     (if \<not> Board_isInBounds fromRow fromCol \<or> \<not> Board_isInBounds toRow toCol then (None, b)
      else case b fromRow fromCol of
             None \<Rightarrow> (None, b)
           | Some p \<Rightarrow>
               let capturedPiece = b toRow toCol;
                   b1 = setCell b toRow toCol (Some (p\<lparr>hasMoved := True\<rparr>));
                   b2 = setCell b1 fromRow fromCol None
               in (capturedPiece, b2))"

text \<open>
  Board.clone builds a fresh 8x8 grid and copies the 64 cells, each piece through
  Piece.clone (same type, colour and hasMoved).
\<close>

definition Piece_clone :: "piece \<Rightarrow> piece" where
  "Piece_clone p = \<lparr>ptype = ptype p, pcolor = pcolor p, hasMoved = hasMoved p\<rparr>"

definition Board_clone :: "board \<Rightarrow> board" where
  "Board_clone b =
     (\<lambda>row col. if Board_isInBounds row col then map_option Piece_clone (b row col) else None)"

text \<open>createEmptyGrid, and PieceFactory.createInitialBoard behind setupInitialPosition.\<close>

definition Board_createEmptyGrid :: board where
  "Board_createEmptyGrid = (\<lambda>row col. None)"

definition PieceFactory_createPiece :: "kind \<Rightarrow> color \<Rightarrow> piece" where
  "PieceFactory_createPiece t c = \<lparr>ptype = t, pcolor = c, hasMoved = False\<rparr>"

definition backRankPieces :: "kind list" where
  "backRankPieces = [Rook, Knight, Bishop, Queen, King, Bishop, Knight, Rook]"

definition PieceFactory_createInitialBoard :: board where
  "PieceFactory_createInitialBoard =
     (\<lambda>row col.
        if \<not> Board_isInBounds row col then None
        else if row = 1 then Some (PieceFactory_createPiece Pawn Black)
        else if row = 6 then Some (PieceFactory_createPiece Pawn White)
        else if row = 0 then Some (PieceFactory_createPiece (backRankPieces ! nat col) Black)
        else if row = 7 then Some (PieceFactory_createPiece (backRankPieces ! nat col) White)
        else None)"

section \<open>The layered implementation: piece rules\<close>

text \<open>
  A generated move is \<^verbatim>\<open>[row, col]\<close> or \<^verbatim>\<open>[row, col, specialMoveType]\<close>; the third
  component is \<open>None\<close> for the two-element form. SPECIAL_MOVES has four members, of which the
  piece rules only ever emit the two castling ones.
\<close>

datatype specialMove = CastleKingside | CastleQueenside | EnPassant | Promotion

type_synonym moveData = "int \<times> int \<times> specialMove option"

record castlingSides =
  kingSide :: bool
  queenSide :: bool

datatype castleSide = Kingside | Queenside

text \<open>
  A recorded move, as GameController.makeMove builds it. The \<open>notation\<close> string is display
  data that no modelled operation reads and is left out. Fields are prefixed because
  GameState has fields of the same names.
\<close>

record Move =
  m_piece :: piece
  m_from :: "int \<times> int"
  m_to :: "int \<times> int"
  m_capturedPiece :: "piece option"
  m_player :: color
  m_enPassantCapture :: "(int \<times> int) option"
  m_promotedPiece :: "kind option"
  m_castling :: "castleSide option"
  m_enPassantTarget :: "(int \<times> int) option"
  m_castlingRights :: "color \<Rightarrow> castlingSides"

text \<open>
  GameState. \<open>result\<close> (derived from gameStatus for the PGN header) and \<open>boardOrientation\<close>
  (display) are left out. capturedPieces can hold \<open>null\<close>: rebuildBoardState pushes whatever
  it reads from the en-passant square.
\<close>

record GameState =
  currentPlayer :: color
  moveHistory :: "Move list"
  boardStates :: "board list"
  capturedPieces :: "color \<Rightarrow> piece option list"
  kingPositions :: "color \<Rightarrow> int \<times> int"
  isInCheck :: "color \<Rightarrow> bool"
  castlingRights :: "color \<Rightarrow> castlingSides"
  enPassantTarget :: "(int \<times> int) option"
  currentMoveIndex :: int
  gameOver :: bool
  gameStatus :: string
  promotionPending :: bool
  promotionMove :: "(int \<times> int \<times> int \<times> int) option"

definition Piece_isOpponentPiece :: "piece \<Rightarrow> board \<Rightarrow> int \<Rightarrow> int \<Rightarrow> bool" where
  "Piece_isOpponentPiece this b row col =
     (case Board_getPiece b row col of None \<Rightarrow> False | Some q \<Rightarrow> pcolor q \<noteq> pcolor this)"

definition Piece_isFriendlyPiece :: "piece \<Rightarrow> board \<Rightarrow> int \<Rightarrow> int \<Rightarrow> bool" where
  "Piece_isFriendlyPiece this b row col =
     (case Board_getPiece b row col of None \<Rightarrow> False | Some q \<Rightarrow> pcolor q = pcolor this)"

definition Piece_isEmpty :: "board \<Rightarrow> int \<Rightarrow> int \<Rightarrow> bool" where
  "Piece_isEmpty b row col = (Board_getPiece b row col = None)"

text \<open>
  Pawn.getPossibleMoves. The two pushes inside the capture loop are independent \<open>if\<close>s, so a
  square that is both an enemy piece and the en-passant target is pushed twice.
\<close>

definition Pawn_getPossibleMoves :: "piece \<Rightarrow> board \<Rightarrow> int \<Rightarrow> int \<Rightarrow> GameState \<Rightarrow> moveData list" where
  "Pawn_getPossibleMoves this b row col gs =
     (let direction = (if pcolor this = White then -1 else 1);
          startingRow = (if pcolor this = White then 6 else 1);
          forward =
            (if Board_isInBounds (row + direction) col \<and> Piece_isEmpty b (row + direction) col
             then (row + direction, col, None) #
                  (if row = startingRow \<and> Piece_isEmpty b (row + 2 * direction) col
                   then [(row + 2 * direction, col, None)] else [])
             else []);
          captures =
            concat (map (\<lambda>colOffset.
              let captureRow = row + direction; captureCol = col + colOffset
              in if Board_isInBounds captureRow captureCol
                 then (if Piece_isOpponentPiece this b captureRow captureCol
                       then [(captureRow, captureCol, None)] else [])
                    @ (if enPassantTarget gs = Some (captureRow, captureCol)
                       then [(captureRow, captureCol, None)] else [])
                 else []) [-1, 1])
      in forward @ captures)"

text \<open>
  Knight and the one-step part of King: a fixed list of offsets, each kept when the target is
  on the board and empty or an enemy piece.
\<close>

definition stepMoves :: "piece \<Rightarrow> board \<Rightarrow> int \<Rightarrow> int \<Rightarrow> (int \<times> int) list \<Rightarrow> moveData list" where
  "stepMoves this b row col offsets =
     concat (map (\<lambda>(rowOffset, colOffset).
       let newRow = row + rowOffset; newCol = col + colOffset
       in if Board_isInBounds newRow newCol
             \<and> (Piece_isEmpty b newRow newCol \<or> Piece_isOpponentPiece this b newRow newCol)
          then [(newRow, newCol, None)] else []) offsets)"

definition knightOffsets :: "(int \<times> int) list" where
  "knightOffsets = [(-2, -1), (-2, 1), (-1, -2), (-1, 2), (1, -2), (1, 2), (2, -1), (2, 1)]"

definition Knight_getPossibleMoves :: "piece \<Rightarrow> board \<Rightarrow> int \<Rightarrow> int \<Rightarrow> moveData list" where
  "Knight_getPossibleMoves this b row col = stepMoves this b row col knightOffsets"

text \<open>
  The \<^verbatim>\<open>while (board.isInBounds(currentRow, currentCol))\<close> loop of Bishop, Rook and Queen
  (the three classes repeat it verbatim), started at the first square of the ray. The
  direction is one of the literal pairs of the three direction tables; the test for a
  direction that does not move is there only to make the function total and is never false
  on a call the source makes. The measure is the distance to the edge the ray runs towards.
\<close>

function slideMoves :: "piece \<Rightarrow> board \<Rightarrow> int \<Rightarrow> int \<Rightarrow> int \<Rightarrow> int \<Rightarrow> moveData list" where
  "slideMoves this b currentRow currentCol rowDir colDir =
     (if Board_isInBounds currentRow currentCol \<and> (rowDir \<noteq> 0 \<or> colDir \<noteq> 0)
      then (if Piece_isEmpty b currentRow currentCol
            then (currentRow, currentCol, None)
                 # slideMoves this b (currentRow + rowDir) (currentCol + colDir) rowDir colDir
            else if Piece_isOpponentPiece this b currentRow currentCol
            then [(currentRow, currentCol, None)]
            else [])
      else [])"
  by pat_completeness auto
termination
  by (relation "measure (\<lambda>(this, b, r, c, dr, dc).
        if dr > 0 then nat (8 - r) else if dr < 0 then nat (r + 1)
        else if dc > 0 then nat (8 - c) else nat (c + 1))")
     (auto simp: Board_isInBounds_def BOARD_SIZE_def)

declare slideMoves.simps [simp del]

definition rayMoves :: "piece \<Rightarrow> board \<Rightarrow> int \<Rightarrow> int \<Rightarrow> (int \<times> int) list \<Rightarrow> moveData list" where
  "rayMoves this b row col directions =
     concat (map (\<lambda>(rowDir, colDir). slideMoves this b (row + rowDir) (col + colDir) rowDir colDir)
                 directions)"

definition Bishop_getPossibleMoves :: "piece \<Rightarrow> board \<Rightarrow> int \<Rightarrow> int \<Rightarrow> moveData list" where
  "Bishop_getPossibleMoves this b row col =
     rayMoves this b row col [(-1, -1), (-1, 1), (1, -1), (1, 1)]"

definition Rook_getPossibleMoves :: "piece \<Rightarrow> board \<Rightarrow> int \<Rightarrow> int \<Rightarrow> moveData list" where
  "Rook_getPossibleMoves this b row col =
     rayMoves this b row col [(-1, 0), (1, 0), (0, -1), (0, 1)]"

definition Queen_getPossibleMoves :: "piece \<Rightarrow> board \<Rightarrow> int \<Rightarrow> int \<Rightarrow> moveData list" where
  "Queen_getPossibleMoves this b row col =
     rayMoves this b row col
       [(-1, 0), (1, 0), (0, -1), (0, 1), (-1, -1), (-1, 1), (1, -1), (1, 1)]"

text \<open>King: the eight neighbours, then the castling candidates.\<close>

definition King_isRookForCastling :: "piece \<Rightarrow> board \<Rightarrow> int \<Rightarrow> int \<Rightarrow> bool" where
  "King_isRookForCastling this b row col =
     (case Board_getPiece b row col of
        None \<Rightarrow> False
      | Some p \<Rightarrow> ptype p = Rook \<and> pcolor p = pcolor this \<and> \<not> hasMoved p)"

definition King_canCastleKingside :: "piece \<Rightarrow> board \<Rightarrow> int \<Rightarrow> int \<Rightarrow> bool" where
  "King_canCastleKingside this b row col =
     (Piece_isEmpty b row (col + 1) \<and> Piece_isEmpty b row (col + 2)
      \<and> Board_isInBounds row (col + 3) \<and> King_isRookForCastling this b row (col + 3))"

definition King_canCastleQueenside :: "piece \<Rightarrow> board \<Rightarrow> int \<Rightarrow> int \<Rightarrow> bool" where
  "King_canCastleQueenside this b row col =
     (Piece_isEmpty b row (col - 1) \<and> Piece_isEmpty b row (col - 2) \<and> Piece_isEmpty b row (col - 3)
      \<and> Board_isInBounds row (col - 4) \<and> King_isRookForCastling this b row (col - 4))"

definition King_addCastlingMoves :: "piece \<Rightarrow> board \<Rightarrow> int \<Rightarrow> int \<Rightarrow> moveData list \<Rightarrow> GameState \<Rightarrow> moveData list" where
  "King_addCastlingMoves this b row col moves gs =
     (let moves1 = (if kingSide (castlingRights gs (pcolor this)) \<and> King_canCastleKingside this b row col
                    then moves @ [(row, col + 2, Some CastleKingside)] else moves)
      in if queenSide (castlingRights gs (pcolor this)) \<and> King_canCastleQueenside this b row col
         then moves1 @ [(row, col - 2, Some CastleQueenside)] else moves1)"

definition kingDirections :: "(int \<times> int) list" where
  "kingDirections = [(-1, -1), (-1, 0), (-1, 1), (0, -1), (0, 1), (1, -1), (1, 0), (1, 1)]"

text \<open>
  The \<open>gameState\<close> parameter defaults to \<open>null\<close> in the source; every caller (MoveValidator)
  passes its game state, so the parameter is the state itself.
\<close>

definition King_getPossibleMoves :: "piece \<Rightarrow> board \<Rightarrow> int \<Rightarrow> int \<Rightarrow> GameState \<Rightarrow> moveData list" where
  "King_getPossibleMoves this b row col gs =
     (let moves = stepMoves this b row col kingDirections
      in if \<not> hasMoved this \<and> \<not> isInCheck gs (pcolor this)
         then King_addCastlingMoves this b row col moves gs
         else moves)"

text \<open>The dynamic dispatch \<^verbatim>\<open>piece.getPossibleMoves(board, row, col, gameState)\<close>.\<close>

definition Piece_getPossibleMoves :: "piece \<Rightarrow> board \<Rightarrow> int \<Rightarrow> int \<Rightarrow> GameState \<Rightarrow> moveData list" where
  "Piece_getPossibleMoves this b row col gs =
     (case ptype this of
        Pawn \<Rightarrow> Pawn_getPossibleMoves this b row col gs
      | Knight \<Rightarrow> Knight_getPossibleMoves this b row col
      | Bishop \<Rightarrow> Bishop_getPossibleMoves this b row col
      | Rook \<Rightarrow> Rook_getPossibleMoves this b row col
      | Queen \<Rightarrow> Queen_getPossibleMoves this b row col
      | King \<Rightarrow> King_getPossibleMoves this b row col gs)"

section \<open>The layered implementation: GameState\<close>

definition initialCastlingRights :: "color \<Rightarrow> castlingSides" where
  "initialCastlingRights = (\<lambda>c. \<lparr>kingSide = True, queenSide = True\<rparr>)"

definition initialKingPositions :: "color \<Rightarrow> int \<times> int" where
  "initialKingPositions = (\<lambda>c. if c = White then (7, 4) else (0, 4))"

text \<open>The constructor; reset() assigns the same values to the same fields.\<close>

definition GameState_new :: GameState where
  "GameState_new =
     \<lparr>currentPlayer = White, moveHistory = [], boardStates = [],
      capturedPieces = (\<lambda>c. []), kingPositions = initialKingPositions,
      isInCheck = (\<lambda>c. False), castlingRights = initialCastlingRights,
      enPassantTarget = None, currentMoveIndex = 0, gameOver = False, gameStatus = [],
      promotionPending = False, promotionMove = None\<rparr>"

definition GameState_reset :: "GameState \<Rightarrow> GameState" where
  "GameState_reset gs = GameState_new"

text \<open>
  clone(): a new GameState whose rule-relevant fields are copied; the history, the captured
  pieces, the move index and the promotion fields keep the constructor's values.
\<close>

definition GameState_clone :: "GameState \<Rightarrow> GameState" where
  "GameState_clone gs =
     GameState_new\<lparr>currentPlayer := currentPlayer gs, kingPositions := kingPositions gs,
                   isInCheck := isInCheck gs, castlingRights := castlingRights gs,
                   enPassantTarget := enPassantTarget gs, gameOver := gameOver gs,
                   gameStatus := gameStatus gs\<rparr>"

definition GameState_getOpponentColor :: "GameState \<Rightarrow> color" where
  "GameState_getOpponentColor gs = (if currentPlayer gs = White then Black else White)"

definition GameState_addCapturedPiece :: "GameState \<Rightarrow> piece option \<Rightarrow> GameState" where
  "GameState_addCapturedPiece gs p =
     (let capturer = currentPlayer gs
      in gs\<lparr>capturedPieces := (capturedPieces gs)(capturer := capturedPieces gs capturer @ [p])\<rparr>)"

definition GameState_updateKingPosition :: "GameState \<Rightarrow> color \<Rightarrow> int \<Rightarrow> int \<Rightarrow> GameState" where
  "GameState_updateKingPosition gs c row col = gs\<lparr>kingPositions := (kingPositions gs)(c := (row, col))\<rparr>"

text \<open>
  \<^verbatim>\<open>xs.slice(0, n)\<close> of JavaScript: the first \<open>n\<close> elements, a negative \<open>n\<close> counting from
  the end.
\<close>

definition slice0 :: "'a list \<Rightarrow> int \<Rightarrow> 'a list" where
  "slice0 xs n = (if n < 0 then take (nat (int (length xs) + n)) xs else take (nat n) xs)"

definition GameState_truncateHistory :: "GameState \<Rightarrow> GameState" where
  "GameState_truncateHistory gs =
     gs\<lparr>moveHistory := slice0 (moveHistory gs) (currentMoveIndex gs),
        boardStates := slice0 (boardStates gs) (currentMoveIndex gs + 1)\<rparr>"

definition GameState_addMove :: "GameState \<Rightarrow> Move \<Rightarrow> board \<Rightarrow> GameState" where
  "GameState_addMove gs move boardState =
     (let gs1 = (if currentMoveIndex gs < int (length (moveHistory gs))
                 then GameState_truncateHistory gs else gs);
          gs2 = gs1\<lparr>moveHistory := moveHistory gs1 @ [move]\<rparr>;
          gs3 = gs2\<lparr>boardStates := boardStates gs2 @ [boardState]\<rparr>
      in gs3\<lparr>currentMoveIndex := int (length (moveHistory gs3))\<rparr>)"

section \<open>The layered implementation: MoveValidator\<close>

text \<open>
  A MoveValidator object holds a reference to a Board and one to a GameState. simulateMove
  re-points both fields at copies while it works, so the two fields are the state that the
  validator's methods thread. A method that can be left by an exception returns \<open>Thrown\<close>
  together with the fields as they stand at the throw.
\<close>

record MoveValidator =
  v_board :: board
  v_gameState :: GameState

datatype 'a completion = Normal 'a | Thrown

definition squares :: "(int \<times> int) list" where
  "squares = concat (map (\<lambda>row. map (\<lambda>col. (row, col)) [0, 1, 2, 3, 4, 5, 6, 7]) [0, 1, 2, 3, 4, 5, 6, 7])"

definition isCastle :: "specialMove option \<Rightarrow> bool" where
  "isCastle specialMove = (specialMove = Some CastleKingside \<or> specialMove = Some CastleQueenside)"

text \<open>
  isSquareAttacked: the two nested loops over the board and the loop over the moves of each
  piece of the attacking colour, with the early \<open>return true\<close>.
\<close>

definition MoveValidator_isSquareAttacked :: "MoveValidator \<Rightarrow> int \<Rightarrow> int \<Rightarrow> color \<Rightarrow> bool" where
  "MoveValidator_isSquareAttacked this row col defendingColor =
     (let attackingColor = (if defendingColor = White then Black else White)
      in list_ex (\<lambda>(r, c).
           case Board_getPiece (v_board this) r c of
             None \<Rightarrow> False
           | Some p \<Rightarrow>
               pcolor p = attackingColor
               \<and> list_ex (\<lambda>(attackRow, attackCol, sp). attackRow = row \<and> attackCol = col)
                    (Piece_getPossibleMoves p (v_board this) r c (v_gameState this)))
         squares)"

definition MoveValidator_isKingInCheck :: "MoveValidator \<Rightarrow> color \<Rightarrow> bool" where
  "MoveValidator_isKingInCheck this c =
     (let (kingRow, kingCol) = kingPositions (v_gameState this) c
      in MoveValidator_isSquareAttacked this kingRow kingCol c)"

text \<open>
  handleCastlingMove: the king and the rook are moved with movePiece; then
  \<^verbatim>\<open>piece.color\<close> is read from the king's destination cell, which throws a TypeError when the
  cell is empty (the king's move did nothing).
\<close>

definition MoveValidator_handleCastlingMove ::
  "MoveValidator \<Rightarrow> int \<Rightarrow> int \<Rightarrow> int \<Rightarrow> int \<Rightarrow> specialMove option \<Rightarrow> unit completion \<times> MoveValidator" where
  "MoveValidator_handleCastlingMove this fromRow fromCol toRow toCol castlingSide =
     (let b1 = snd (Board_movePiece (v_board this) fromRow fromCol toRow toCol);
          isKingside = (castlingSide = Some CastleKingside);
          rookFromCol = (if isKingside then 7 else 0);
          rookToCol = (if isKingside then 5 else 3);
          b2 = snd (Board_movePiece b1 fromRow rookFromCol fromRow rookToCol);
          this2 = this\<lparr>v_board := b2\<rparr>
      in case Board_getPiece b2 toRow toCol of
           None \<Rightarrow> (Thrown, this2)
         | Some p \<Rightarrow>
             (Normal (),
              this2\<lparr>v_gameState := GameState_updateKingPosition (v_gameState this2) (pcolor p) toRow toCol\<rparr>))"

text \<open>
  makeTemporaryMove returns the captured piece. It reads \<^verbatim>\<open>piece.type\<close> of the source cell
  and throws when that cell is empty; simulateMove has returned before in that case.
\<close>

definition MoveValidator_makeTemporaryMove ::
  "MoveValidator \<Rightarrow> int \<Rightarrow> int \<Rightarrow> int \<Rightarrow> int \<Rightarrow> specialMove option \<Rightarrow> piece option completion \<times> MoveValidator" where
  "MoveValidator_makeTemporaryMove this fromRow fromCol toRow toCol specialMove =
     (let p0 = Board_getPiece (v_board this) fromRow fromCol;
          capturedPiece = Board_getPiece (v_board this) toRow toCol
      in if isCastle specialMove
         then (case MoveValidator_handleCastlingMove this fromRow fromCol toRow toCol specialMove of
                 (Thrown, this1) \<Rightarrow> (Thrown, this1)
               | (Normal u, this1) \<Rightarrow> (Normal None, this1))
         else case p0 of
           None \<Rightarrow> (Thrown, this)
         | Some p \<Rightarrow>
             let (capturedPiece1, b1) =
                   (if ptype p = Pawn \<and> enPassantTarget (v_gameState this) = Some (toRow, toCol)
                    then let enPassantRow = (if pcolor p = White then toRow + 1 else toRow - 1)
                         in (Board_getPiece (v_board this) enPassantRow toCol,
                             snd (Board_setPiece (v_board this) enPassantRow toCol None))
                    else (capturedPiece, v_board this));
                 b2 = snd (Board_setPiece b1 toRow toCol (Some p));
                 b3 = snd (Board_setPiece b2 fromRow fromCol None);
                 gs1 = (if ptype p = King
                        then (v_gameState this)\<lparr>kingPositions :=
                               (kingPositions (v_gameState this))(pcolor p := (toRow, toCol))\<rparr>
                        else v_gameState this)
             in (Normal capturedPiece1, this\<lparr>v_board := b3, v_gameState := gs1\<rparr>))"

text \<open>
  simulateMove. The two restoring assignments at the end are skipped when
  makeTemporaryMove throws: the exception leaves the method with the fields still pointing
  at the simulation copies.
\<close>

definition MoveValidator_simulateMove ::
  "MoveValidator \<Rightarrow> int \<Rightarrow> int \<Rightarrow> int \<Rightarrow> int \<Rightarrow> specialMove option \<Rightarrow> bool completion \<times> MoveValidator" where
  "MoveValidator_simulateMove this fromRow fromCol toRow toCol specialMove =
     (case Board_getPiece (v_board this) fromRow fromCol of
        None \<Rightarrow> (Normal False, this)
      | Some p \<Rightarrow>
          let originalBoard = Board_clone (v_board this);
              originalState = GameState_clone (v_gameState this);
              simulationBoard = Board_clone originalBoard;
              simulationState = GameState_clone originalState;
              savedBoard = v_board this;
              savedState = v_gameState this;
              this1 = this\<lparr>v_board := simulationBoard, v_gameState := simulationState\<rparr>
          in case MoveValidator_makeTemporaryMove this1 fromRow fromCol toRow toCol specialMove of
               (Thrown, this2) \<Rightarrow> (Thrown, this2)
             | (Normal captured, this2) \<Rightarrow>
                 let isInCheck = MoveValidator_isKingInCheck this2 (pcolor p);
                     this3 = this2\<lparr>v_board := savedBoard, v_gameState := savedState\<rparr>
                 in (Normal (\<not> isInCheck), this3))"

text \<open>
  The loop of calculateLegalMoves over the candidate moves: each iteration is a
  \<^verbatim>\<open>try { if (this.simulateMove(...)) legalMoves.push(moveData) } catch { }\<close>, so a thrown
  simulation is skipped and the loop goes on with the validator as the throw left it.
  \<open>legalMovesStep\<close> is one iteration, on the pair of the array \<^verbatim>\<open>legalMoves\<close> and the
  validator.
\<close>

definition legalMovesStep ::
  "int \<Rightarrow> int \<Rightarrow> moveData list \<times> MoveValidator \<Rightarrow> moveData \<Rightarrow> moveData list \<times> MoveValidator" where
  "legalMovesStep row col st moveData =
     (case MoveValidator_simulateMove (snd st) row col (fst moveData) (fst (snd moveData)) (snd (snd moveData)) of
        (Thrown, this1) \<Rightarrow> (fst st, this1)
      | (Normal ok, this1) \<Rightarrow> (if ok then fst st @ [moveData] else fst st, this1))"

definition legalMovesLoop :: "MoveValidator \<Rightarrow> int \<Rightarrow> int \<Rightarrow> moveData list \<Rightarrow> moveData list \<times> MoveValidator" where
  "legalMovesLoop this row col moves = foldl (legalMovesStep row col) ([], this) moves"

definition MoveValidator_calculateLegalMoves ::
  "MoveValidator \<Rightarrow> int \<Rightarrow> int \<Rightarrow> moveData list \<times> MoveValidator" where
  "MoveValidator_calculateLegalMoves this row col =
     (case Board_getPiece (v_board this) row col of
        None \<Rightarrow> ([], this)
      | Some p \<Rightarrow>
          if pcolor p \<noteq> currentPlayer (v_gameState this) then ([], this)
          else legalMovesLoop this row col
                 (Piece_getPossibleMoves p (v_board this) row col (v_gameState this)))"

text \<open>
  playerHasLegalMoves: the board scan with its early \<open>return true\<close>. One iteration works on
  the pair of a flag and the validator; the flag is set once the method has returned true,
  and the iterations after that do nothing.
\<close>

definition playerHasLegalMovesStep :: "color \<Rightarrow> bool \<times> MoveValidator \<Rightarrow> int \<times> int \<Rightarrow> bool \<times> MoveValidator" where
  "playerHasLegalMovesStep c st sq =
     (if fst st then st
      else case Board_getPiece (v_board (snd st)) (fst sq) (snd sq) of
             None \<Rightarrow> st
           | Some p \<Rightarrow>
               if pcolor p = c
               then (let (legalMoves, this1) = MoveValidator_calculateLegalMoves (snd st) (fst sq) (snd sq)
                     in (length legalMoves > 0, this1))
               else st)"

definition MoveValidator_playerHasLegalMoves :: "MoveValidator \<Rightarrow> color \<Rightarrow> bool \<times> MoveValidator" where
  "MoveValidator_playerHasLegalMoves this c = foldl (playerHasLegalMovesStep c) (False, this) squares"

text \<open>checkGameEndConditions returns the object \<^verbatim>\<open>{gameOver, gameStatus}\<close>.\<close>

definition MoveValidator_checkGameEndConditions :: "MoveValidator \<Rightarrow> (bool \<times> string) \<times> MoveValidator" where
  "MoveValidator_checkGameEndConditions this =
     (let currentColor = currentPlayer (v_gameState this);
          (hasLegalMoves, this1) = MoveValidator_playerHasLegalMoves this currentColor
      in if \<not> hasLegalMoves
         then (if isInCheck (v_gameState this1) currentColor
               then ((True, ''Checkmate! '' @ (if currentColor = White then ''Black'' else ''White'') @ '' wins''), this1)
               else ((True, ''Stalemate! Game is a draw''), this1))
         else if isInCheck (v_gameState this1) currentColor
         then ((False, (if currentColor = White then ''White'' else ''Black'') @ '' is in check!''), this1)
         else ((False, []), this1))"

definition MoveValidator_updateCheckStatus :: "MoveValidator \<Rightarrow> MoveValidator" where
  "MoveValidator_updateCheckStatus this =
     (let whiteCheck = MoveValidator_isKingInCheck this White;
          blackCheck = MoveValidator_isKingInCheck this Black;
          gs = v_gameState this
      in this\<lparr>v_gameState := gs\<lparr>isInCheck := ((isInCheck gs)(White := whiteCheck))(Black := blackCheck)\<rparr>\<rparr>)"

section \<open>The layered implementation: GameController\<close>

text \<open>
  main.js creates one Board and one GameState and hands the same two objects to the
  MoveValidator and to the GameController. The GameState object stays shared for good. The
  Board does not: goToMove assigns a clone to \<^verbatim>\<open>this.board\<close> of the controller, and the
  validator keeps the object it was constructed with. \<open>validatorBoard\<close> is \<open>None\<close> while the
  validator's board is the very object the controller's \<open>board\<close> field refers to, and
  \<open>Some b\<close> once the two differ, \<open>b\<close> being the content of the validator's own object (which
  nothing mutates any more, the validator writing to simulation copies only).
  The view (ChessUI, NotationView), the storage service and logging are left out: they read
  the state and do not write it.
\<close>

record GameController =
  board :: board
  validatorBoard :: "board option"
  gameState :: GameState
  selectedPiece :: "(int \<times> int) option"
  possibleMoves :: "moveData list"

definition moveValidator :: "GameController \<Rightarrow> MoveValidator" where
  "moveValidator this =
     \<lparr>v_board = (case validatorBoard this of None \<Rightarrow> board this | Some vb \<Rightarrow> vb),
      v_gameState = gameState this\<rparr>"

definition Board_setupInitialPosition :: "board \<Rightarrow> board" where
  "Board_setupInitialPosition b = PieceFactory_createInitialBoard"

definition GameController_clearSelection :: "GameController \<Rightarrow> GameController" where
  "GameController_clearSelection this = this\<lparr>selectedPiece := None, possibleMoves := []\<rparr>"

text \<open>
  selectPiece stores the legal moves the validator computes. The validator returns from
  calculateLegalMoves with both of its fields as they were (theorem
  \<open>MoveValidator_calculateLegalMoves_restores\<close> below), so the controller keeps its state.
\<close>

definition GameController_selectPiece :: "GameController \<Rightarrow> int \<Rightarrow> int \<Rightarrow> GameController" where
  "GameController_selectPiece this row col =
     (case Board_getPiece (board this) row col of
        None \<Rightarrow> this
      | Some p \<Rightarrow>
          if pcolor p \<noteq> currentPlayer (gameState this) then this
          else this\<lparr>selectedPiece := Some (row, col),
                    possibleMoves := fst (MoveValidator_calculateLegalMoves (moveValidator this) row col)\<rparr>)"

definition GameController_handleCastling :: "board \<Rightarrow> int \<Rightarrow> int \<Rightarrow> int \<Rightarrow> int \<Rightarrow> castleSide \<Rightarrow> board" where
  "GameController_handleCastling b fromRow fromCol toRow toCol castlingSide =
     (let b1 = snd (Board_movePiece b fromRow fromCol toRow toCol);
          isKingside = (castlingSide = Kingside);
          rookFromCol = (if isKingside then 7 else 0);
          rookToCol = (if isKingside then 5 else 3)
      in snd (Board_movePiece b1 fromRow rookFromCol fromRow rookToCol))"

definition setKingSide :: "(color \<Rightarrow> castlingSides) \<Rightarrow> color \<Rightarrow> bool \<Rightarrow> (color \<Rightarrow> castlingSides)" where
  "setKingSide rights c v = rights(c := (rights c)\<lparr>kingSide := v\<rparr>)"

definition setQueenSide :: "(color \<Rightarrow> castlingSides) \<Rightarrow> color \<Rightarrow> bool \<Rightarrow> (color \<Rightarrow> castlingSides)" where
  "setQueenSide rights c v = rights(c := (rights c)\<lparr>queenSide := v\<rparr>)"

text \<open>
  updateCastlingRights is called by makeMove after the board has been updated, and reads the
  destination cell of the board as it is then.
\<close>

definition GameController_updateCastlingRights ::
  "board \<Rightarrow> (color \<Rightarrow> castlingSides) \<Rightarrow> int \<Rightarrow> int \<Rightarrow> int \<Rightarrow> int \<Rightarrow> piece \<Rightarrow> (color \<Rightarrow> castlingSides)" where
  "GameController_updateCastlingRights b rights fromRow fromCol toRow toCol p =
     (let r1 = (if ptype p = King
                then setQueenSide (setKingSide rights (pcolor p) False) (pcolor p) False
                else rights);
          r2 = (if ptype p = Rook
                then (if fromRow = 7 \<and> fromCol = 0 \<and> pcolor p = White then setQueenSide r1 White False
                      else if fromRow = 7 \<and> fromCol = 7 \<and> pcolor p = White then setKingSide r1 White False
                      else if fromRow = 0 \<and> fromCol = 0 \<and> pcolor p = Black then setQueenSide r1 Black False
                      else if fromRow = 0 \<and> fromCol = 7 \<and> pcolor p = Black then setKingSide r1 Black False
                      else r1)
                else r1);
          capturedPiece = Board_getPiece b toRow toCol
      in case capturedPiece of
           None \<Rightarrow> r2
         | Some cp \<Rightarrow>
             if ptype cp = Rook
             then (let r3 = (if toRow = 7 \<and> toCol = 0 then setQueenSide r2 White False else r2);
                       r4 = (if toRow = 7 \<and> toCol = 7 then setKingSide r3 White False else r3);
                       r5 = (if toRow = 0 \<and> toCol = 0 then setQueenSide r4 Black False else r4)
                   in if toRow = 0 \<and> toCol = 7 then setKingSide r5 Black False else r5)
             else r2)"

definition pushCaptured :: "GameState \<Rightarrow> color \<Rightarrow> piece option \<Rightarrow> GameState" where
  "pushCaptured gs c p = gs\<lparr>capturedPieces := (capturedPieces gs)(c := capturedPieces gs c @ [p])\<rparr>"

text \<open>
  The block of makeMove under \<^verbatim>\<open>// Handle special moves\<close>: it updates the board and the game
  state and leaves the four locals capturedPiece, enPassantCapture, promotedPiece and
  castling. Two details of the source are kept: in the pawn branch without promotion the
  local capturedPiece is assigned again from the destination cell (so the pawn taken en
  passant is forgotten), and in the promotion branch it is not assigned from the destination
  cell at all.
\<close>

definition makeMove_special ::
  "board \<Rightarrow> GameState \<Rightarrow> piece \<Rightarrow> int \<Rightarrow> int \<Rightarrow> int \<Rightarrow> int \<Rightarrow> specialMove option \<Rightarrow> kind option
   \<Rightarrow> board \<times> GameState \<times> piece option \<times> (int \<times> int) option \<times> kind option \<times> castleSide option" where
  "makeMove_special b gs p fromRow fromCol toRow toCol specialMove promotionPiece =
     (let pieceType = ptype p; pieceColor = pcolor p
      in if isCastle specialMove
         then (let castling = (if specialMove = Some CastleKingside then Kingside else Queenside)
               in (GameController_handleCastling b fromRow fromCol toRow toCol castling,
                   gs, None, None, None, Some castling))
         else if pieceType = Pawn
         then (let (b1, gs1, capturedPiece1, enPassantCapture) =
                     (if fromCol \<noteq> toCol \<and> Board_getPiece b toRow toCol = None
                      then (let enPassantRow = (if pieceColor = White then toRow + 1 else toRow - 1);
                                captured = Board_getPiece b enPassantRow toCol;
                                b' = snd (Board_setPiece b enPassantRow toCol None);
                                gs' = (if captured \<noteq> None then pushCaptured gs pieceColor captured else gs)
                            in (b', gs', captured, Some (enPassantRow, toCol)))
                      else (b, gs, None, None))
               in case promotionPiece of
                    Some k \<Rightarrow>
                      (let newPiece = PieceFactory_createPiece k pieceColor;
                           b2 = snd (Board_setPiece b1 toRow toCol (Some newPiece));
                           b3 = snd (Board_setPiece b2 fromRow fromCol None)
                       in (b3, gs1, capturedPiece1, enPassantCapture, Some k, None))
                  | None \<Rightarrow>
                      (let gs2 = (if abs (fromRow - toRow) = 2
                                  then gs1\<lparr>enPassantTarget :=
                                         Some (if pieceColor = White then toRow + 1 else toRow - 1, toCol)\<rparr>
                                  else gs1);
                           capturedPiece2 = Board_getPiece b1 toRow toCol;
                           b2 = snd (Board_movePiece b1 fromRow fromCol toRow toCol)
                       in (b2, gs2, capturedPiece2, enPassantCapture, None, None)))
         else (snd (Board_movePiece b fromRow fromCol toRow toCol), gs,
               Board_getPiece b toRow toCol, None, None, None))"

text \<open>
  The state of the moved piece object when the move record is built: the record holds a
  reference to the object, and Board.movePiece has set its hasMoved flag by then, unless the
  piece left the source cell through setPiece (promotion) or did not move at all.
\<close>

definition pieceAfterMove :: "piece \<Rightarrow> int \<Rightarrow> int \<Rightarrow> kind option \<Rightarrow> piece" where
  "pieceAfterMove p toRow toCol promotedPiece =
     (if promotedPiece = None \<and> Board_isInBounds toRow toCol then p\<lparr>hasMoved := True\<rparr> else p)"

text \<open>
  The end of makeMove and of goToMove: updateCheckStatus, then checkGameEndConditions and
  the assignment of its result. Both validator methods work on the shared GameState object;
  the validator's board reference is back in place when they return.
\<close>

definition GameController_updateCheckStatus :: "GameController \<Rightarrow> GameController" where
  "GameController_updateCheckStatus this =
     this\<lparr>gameState := v_gameState (MoveValidator_updateCheckStatus (moveValidator this))\<rparr>"

definition GameController_applyEndConditions :: "GameController \<Rightarrow> GameController" where
  "GameController_applyEndConditions this =
     (let ((over, status), v) = MoveValidator_checkGameEndConditions (moveValidator this)
      in this\<lparr>gameState := (gameState this)\<lparr>gameOver := over, gameStatus := status\<rparr>\<rparr>)"

text \<open>
  The body of makeMove from the reset of the en-passant target to the switch of the player,
  for the piece \<open>p\<close> found on the source square.
\<close>

definition makeMove_record ::
  "GameController \<Rightarrow> piece \<Rightarrow> int \<Rightarrow> int \<Rightarrow> int \<Rightarrow> int \<Rightarrow> specialMove option \<Rightarrow> kind option \<Rightarrow> GameController" where
  "makeMove_record this p fromRow fromCol toRow toCol specialMove promotionPiece =
     (let pieceType = ptype p;
          pieceColor = pcolor p;
          opponentColor = (if pieceColor = White then Black else White);
          oldEnPassantTarget = enPassantTarget (gameState this);
          gs0 = (gameState this)\<lparr>enPassantTarget := None\<rparr>;
          (b1, gs1, capturedPiece, enPassantCapture, promotedPiece, castling) =
             makeMove_special (board this) gs0 p fromRow fromCol toRow toCol specialMove promotionPiece;
          gs2 = (if capturedPiece \<noteq> None \<and> enPassantCapture = None
                 then pushCaptured gs1 pieceColor capturedPiece else gs1);
          gs3 = gs2\<lparr>castlingRights :=
                  GameController_updateCastlingRights b1 (castlingRights gs2)
                    fromRow fromCol toRow toCol p\<rparr>;
          gs4 = (if pieceType = King
                 then gs3\<lparr>kingPositions := (kingPositions gs3)(pieceColor := (toRow, toCol))\<rparr>
                 else gs3);
          move = \<lparr>m_piece = pieceAfterMove p toRow toCol promotedPiece,
                  m_from = (fromRow, fromCol), m_to = (toRow, toCol),
                  m_capturedPiece = capturedPiece, m_player = pieceColor,
                  m_enPassantCapture = enPassantCapture, m_promotedPiece = promotedPiece,
                  m_castling = castling, m_enPassantTarget = oldEnPassantTarget,
                  m_castlingRights = castlingRights gs4\<rparr>;
          gs5 = GameState_addMove gs4 move (Board_clone b1);
          gs6 = gs5\<lparr>currentPlayer := opponentColor\<rparr>
      in this\<lparr>board := b1, gameState := gs6\<rparr>)"

text \<open>
  makeMove. It has no legality test of its own: its callers are handleSquareClick (after the
  membership test against possibleMoves), completePromotion and loadPGN. When the source
  square is empty and a piece is selected, the selected square becomes the source. The body
  is a \<open>try\<close> block whose \<open>catch\<close> returns \<open>false\<close>; with the promotion piece a piece type
  (as the promotion dialog and the PGN parser supply it) nothing in the body throws.
\<close>

definition GameController_makeMove ::
  "GameController \<Rightarrow> int \<Rightarrow> int \<Rightarrow> int \<Rightarrow> int \<Rightarrow> specialMove option \<Rightarrow> kind option \<Rightarrow> bool \<times> GameController" where
  "GameController_makeMove this fromRow0 fromCol0 toRow toCol specialMove promotionPiece =
     (let (fromRow, fromCol) =
            (case selectedPiece this of
               Some sel \<Rightarrow> if Board_getPiece (board this) fromRow0 fromCol0 = None then sel
                           else (fromRow0, fromCol0)
             | None \<Rightarrow> (fromRow0, fromCol0))
      in case Board_getPiece (board this) fromRow fromCol of
           None \<Rightarrow> (False, this)
         | Some p \<Rightarrow>
             (True,
              GameController_applyEndConditions
                (GameController_updateCheckStatus
                   (makeMove_record this p fromRow fromCol toRow toCol specialMove promotionPiece))))"

text \<open>promptPromotion and completePromotion: the two phases of a promotion.\<close>

definition GameController_promptPromotion :: "GameController \<Rightarrow> int \<Rightarrow> int \<Rightarrow> int \<Rightarrow> int \<Rightarrow> GameController" where
  "GameController_promptPromotion this fromRow fromCol toRow toCol =
     this\<lparr>gameState := (gameState this)\<lparr>promotionPending := True,
                                          promotionMove := Some (fromRow, fromCol, toRow, toCol)\<rparr>\<rparr>"

text \<open>
  completePromotion destructures \<^verbatim>\<open>this.gameState.promotionMove\<close> first; with no pending
  move that statement throws and nothing has been written.
\<close>

definition GameController_completePromotion :: "GameController \<Rightarrow> kind \<Rightarrow> GameController" where
  "GameController_completePromotion this pieceType =
     (case promotionMove (gameState this) of
        None \<Rightarrow> this
      | Some (fromRow, fromCol, toRow, toCol) \<Rightarrow>
          let this1 = snd (GameController_makeMove this fromRow fromCol toRow toCol None (Some pieceType))
          in this1\<lparr>gameState := (gameState this1)\<lparr>promotionPending := False, promotionMove := None\<rparr>\<rparr>)"

text \<open>
  rebuildBoardState: the board is reset in place and the first \<open>moveIndex\<close> recorded moves
  are replayed. One iteration of its loop:
\<close>

definition rebuildStep :: "board \<times> GameState \<Rightarrow> Move \<Rightarrow> board \<times> GameState" where
  "rebuildStep st move =
     (let (b, gs) = st;
          (fromRow, fromCol) = m_from move;
          (toRow, toCol) = m_to move;
          p = Board_getPiece b fromRow fromCol;
          gs1 = (if m_capturedPiece move \<noteq> None
                 then GameState_addCapturedPiece gs (m_capturedPiece move) else gs);
          (b1, gs2) =
             (case m_enPassantCapture move of
                None \<Rightarrow> (b, gs1)
              | Some (epRow, epCol) \<Rightarrow>
                  (let capturedPawn = Board_getPiece b epRow epCol
                   in (snd (Board_setPiece b epRow epCol None), GameState_addCapturedPiece gs1 capturedPawn)));
          b2 = (case m_castling move of
                  None \<Rightarrow> b1
                | Some side \<Rightarrow>
                    (let row = fromRow;
                         rookFromCol = (if side = Kingside then 7 else 0);
                         rookToCol = (if side = Kingside then 5 else 3);
                         rook = Board_getPiece b1 row rookFromCol;
                         b' = snd (Board_setPiece b1 row rookToCol rook)
                     in snd (Board_setPiece b' row rookFromCol None)));
          b3 = (case m_promotedPiece move of
                  Some k \<Rightarrow>
                    (let newPiece = PieceFactory_createPiece k (m_player move);
                         b' = snd (Board_setPiece b2 toRow toCol (Some newPiece))
                     in snd (Board_setPiece b' fromRow fromCol None))
                | None \<Rightarrow> snd (Board_movePiece b2 fromRow fromCol toRow toCol));
          gs3 = (case p of
                   None \<Rightarrow> gs2
                 | Some q \<Rightarrow> if ptype q = King
                             then GameState_updateKingPosition gs2 (m_player move) toRow toCol
                             else gs2);
          gs4 = gs3\<lparr>castlingRights := m_castlingRights move\<rparr>;
          gs5 = gs4\<lparr>enPassantTarget := m_enPassantTarget move\<rparr>
      in (b3, gs5))"

definition GameController_rebuildBoardState :: "GameController \<Rightarrow> int \<Rightarrow> GameController" where
  "GameController_rebuildBoardState this moveIndex =
     (let b0 = Board_setupInitialPosition (board this);
          (b, gs) = foldl rebuildStep (b0, gameState this)
                      (take (nat moveIndex) (moveHistory (gameState this)))
      in this\<lparr>board := b, gameState := gs\<rparr>)"

text \<open>
  goToMove. The first branch is the assignment \<^verbatim>\<open>this.board = boardStates[moveIndex].clone()\<close>:
  from then on the controller's board is a new object and the validator's is the old one.
\<close>

definition GameController_restoreSnapshot :: "GameController \<Rightarrow> int \<Rightarrow> GameController" where
  "GameController_restoreSnapshot this moveIndex =
     this\<lparr>board := Board_clone (boardStates (gameState this) ! nat moveIndex),
          validatorBoard := Some (v_board (moveValidator this))\<rparr>"

definition GameController_goToMove :: "GameController \<Rightarrow> int \<Rightarrow> GameController" where
  "GameController_goToMove this moveIndex =
     (if moveIndex < 0 \<or> moveIndex > int (length (moveHistory (gameState this))) then this
      else let this1 = (if moveIndex \<le> int (length (boardStates (gameState this))) - 1
                        then GameController_restoreSnapshot this moveIndex
                        else GameController_rebuildBoardState this moveIndex);
               this2 = this1\<lparr>gameState := (gameState this1)\<lparr>currentMoveIndex := moveIndex\<rparr>\<rparr>;
               this3 = this2\<lparr>gameState := (gameState this2)\<lparr>currentPlayer :=
                                  (if moveIndex mod 2 = 0 then White else Black)\<rparr>\<rparr>;
               this4 = GameController_updateCheckStatus this3
           in if moveIndex = int (length (moveHistory (gameState this4)))
              then GameController_applyEndConditions this4
              else this4\<lparr>gameState := (gameState this4)\<lparr>gameOver := False, gameStatus := []\<rparr>\<rparr>)"

text \<open>handleSquareClick, the entry point of a move request from the board.\<close>

definition findMoveIndex :: "moveData list \<Rightarrow> int \<Rightarrow> int \<Rightarrow> moveData option" where
  "findMoveIndex moves row col = find (\<lambda>(r, c, sp). r = row \<and> c = col) moves"

definition GameController_handleSquareClick :: "GameController \<Rightarrow> int \<Rightarrow> int \<Rightarrow> GameController" where
  "GameController_handleSquareClick this row col =
     (if gameOver (gameState this) \<or> promotionPending (gameState this) then this
      else if currentMoveIndex (gameState this) < int (length (moveHistory (gameState this)))
      then GameController_clearSelection
             (GameController_goToMove this (int (length (moveHistory (gameState this)))))
      else case selectedPiece this of
        Some (selectedRow, selectedCol) \<Rightarrow>
          (case findMoveIndex (possibleMoves this) row col of
             Some (r, c, specialMove) \<Rightarrow>
               (let promoting =
                      (case Board_getPiece (board this) selectedRow selectedCol of
                         None \<Rightarrow> False
                       | Some p \<Rightarrow> ptype p = Pawn
                                    \<and> ((pcolor p = White \<and> row = 0) \<or> (pcolor p = Black \<and> row = 7)));
                    this1 = (if promoting
                             then GameController_promptPromotion this selectedRow selectedCol row col
                             else snd (GameController_makeMove this selectedRow selectedCol row col
                                         specialMove None))
                in GameController_clearSelection this1)
           | None \<Rightarrow>
               (case Board_getPiece (board this) row col of
                  None \<Rightarrow> GameController_clearSelection this
                | Some clicked \<Rightarrow>
                    if pcolor clicked = currentPlayer (gameState this)
                    then GameController_selectPiece this row col
                    else GameController_clearSelection this))
      | None \<Rightarrow>
          (case Board_getPiece (board this) row col of
             None \<Rightarrow> this
           | Some p \<Rightarrow> if pcolor p = currentPlayer (gameState this)
                       then GameController_selectPiece this row col else this))"

text \<open>initialize and resetGame. Both work on the controller's current Board object in place.\<close>

definition GameController_initialize :: "GameController \<Rightarrow> GameController" where
  "GameController_initialize this =
     (let gs0 = GameState_reset (gameState this);
          b = Board_setupInitialPosition (Board_createEmptyGrid);
          gs1 = gs0\<lparr>moveHistory := [], currentMoveIndex := 0, boardStates := [Board_clone b],
                    currentPlayer := White, kingPositions := initialKingPositions,
                    castlingRights := initialCastlingRights, isInCheck := (\<lambda>c. False),
                    gameOver := False, gameStatus := []\<rparr>;
          this1 = this\<lparr>board := b, gameState := gs1, selectedPiece := None, possibleMoves := []\<rparr>
      in GameController_updateCheckStatus this1)"

definition GameController_resetGame :: "GameController \<Rightarrow> GameController" where
  "GameController_resetGame this =
     (let b = Board_setupInitialPosition (board this);
          gs = (GameState_reset (gameState this))\<lparr>boardStates := [Board_clone b]\<rparr>
      in GameController_clearSelection (this\<lparr>board := b, gameState := gs\<rparr>))"

text \<open>The objects as main.js wires them, before initialize has run.\<close>

definition GameController_new :: GameController where
  "GameController_new =
     \<lparr>board = Board_createEmptyGrid, validatorBoard = None, gameState = GameState_new,
      selectedPiece = None, possibleMoves = []\<rparr>"

section \<open>The monolithic implementation: class ChessGame\<close>

text \<open>
  In ChessGame a cell of the board is \<open>null\<close> or a string such as \<^verbatim>\<open>'pawn-white'\<close>, which the
  code takes apart with \<open>split('-')\<close>, \<open>startsWith\<close> and \<open>endsWith\<close>: a cell is a pair of a
  kind and a colour. The class reads \<^verbatim>\<open>this.board[r][c]\<close> directly; where the source guards
  a read with isInBounds the model has the same guard, and where it does not, the text says
  why the index is on the board.
\<close>

type_synonym cgpiece = "kind \<times> color"

type_synonym cgboard = "int \<Rightarrow> int \<Rightarrow> cgpiece option"

record CGMove =
  cm_from :: "int \<times> int"
  cm_to :: "int \<times> int"
  cm_piece :: cgpiece
  cm_capturedPiece :: "cgpiece option"
  cm_player :: color
  cm_enPassantCapture :: "(int \<times> int) option"
  cm_promotedPiece :: "kind option"
  cm_castling :: "castleSide option"
  cm_enPassantTarget :: "(int \<times> int) option"
  cm_castlingRights :: "color \<Rightarrow> castlingSides"
  cm_specialMove :: string

record ChessGame =
  cg_board :: cgboard
  cg_currentPlayer :: color
  cg_selectedPiece :: "(int \<times> int) option"
  cg_possibleMoves :: "(int \<times> int) list"
  cg_moveHistory :: "CGMove list"
  cg_capturedPieces :: "color \<Rightarrow> cgpiece option list"
  cg_currentMoveIndex :: int
  cg_boardStates :: "cgboard list"
  cg_kingPositions :: "color \<Rightarrow> int \<times> int"
  cg_isInCheck :: "color \<Rightarrow> bool"
  cg_gameOver :: bool
  cg_gameStatus :: string
  cg_castlingRights :: "color \<Rightarrow> castlingSides"
  cg_enPassantTarget :: "(int \<times> int) option"
  cg_promotionPending :: bool
  cg_promotionMove :: "(int \<times> int \<times> int \<times> int) option"

text \<open>\<^verbatim>\<open>board.map(row => [...row])\<close>: a copy with the same cells (pieces are immutable strings).\<close>

definition ChessGame_deepCopyBoard :: "cgboard \<Rightarrow> cgboard" where
  "ChessGame_deepCopyBoard b = (\<lambda>row. (\<lambda>col. b row col))"

definition ChessGame_createInitialBoard :: cgboard where
  "ChessGame_createInitialBoard =
     (\<lambda>row col.
        if \<not> (0 \<le> col \<and> col < 8) then None
        else if row = 0 then Some (backRankPieces ! nat col, Black)
        else if row = 1 then Some (Pawn, Black)
        else if row = 6 then Some (Pawn, White)
        else if row = 7 then Some (backRankPieces ! nat col, White)
        else None)"

definition ChessGame_isInBounds :: "int \<Rightarrow> int \<Rightarrow> bool" where
  "ChessGame_isInBounds row col = (row \<ge> 0 \<and> row < 8 \<and> col \<ge> 0 \<and> col < 8)"

subsection \<open>Attack detection\<close>

text \<open>
  The three offset loops of isSquareAttacked look for a given piece of the attacking colour
  on the squares at fixed offsets from the target.
\<close>

definition cgOffsetHit :: "cgboard \<Rightarrow> int \<Rightarrow> int \<Rightarrow> (int \<times> int) list \<Rightarrow> cgpiece \<Rightarrow> bool" where
  "cgOffsetHit b row col offsets attacker =
     list_ex (\<lambda>(rowOffset, colOffset).
        let checkRow = row + rowOffset; checkCol = col + colOffset
        in ChessGame_isInBounds checkRow checkCol \<and> b checkRow checkCol = Some attacker) offsets"

text \<open>
  One ray of isSquareAttacked: walk while on the board; the first occupied square decides
  (\<open>return true\<close> for one of the two attackers, \<open>break\<close> otherwise). The test for a
  direction that does not move makes the function total; the source calls it with the eight
  literal directions only.
\<close>

function cgRayHit :: "cgboard \<Rightarrow> int \<Rightarrow> int \<Rightarrow> int \<Rightarrow> int \<Rightarrow> cgpiece \<Rightarrow> cgpiece \<Rightarrow> bool" where
  "cgRayHit b checkRow checkCol rowDir colDir attacker1 attacker2 =
     (if ChessGame_isInBounds checkRow checkCol \<and> (rowDir \<noteq> 0 \<or> colDir \<noteq> 0)
      then (case b checkRow checkCol of
              Some p \<Rightarrow> p = attacker1 \<or> p = attacker2
            | None \<Rightarrow> cgRayHit b (checkRow + rowDir) (checkCol + colDir) rowDir colDir attacker1 attacker2)
      else False)"
  by pat_completeness auto
termination
  by (relation "measure (\<lambda>(b, r, c, dr, dc, a1, a2).
        if dr > 0 then nat (8 - r) else if dr < 0 then nat (r + 1)
        else if dc > 0 then nat (8 - c) else nat (c + 1))")
     (auto simp: ChessGame_isInBounds_def)

declare cgRayHit.simps [simp del]

definition ChessGame_isSquareAttacked :: "ChessGame \<Rightarrow> int \<Rightarrow> int \<Rightarrow> color \<Rightarrow> bool" where
  "ChessGame_isSquareAttacked this row col defendingColor =
     (let attackingColor = (if defendingColor = White then Black else White);
          b = cg_board this;
          pawnDirections = (if defendingColor = White then [(1, -1), (1, 1)] else [(-1, -1), (-1, 1)]);
          straightDirections = [(0, 1), (1, 0), (0, -1), (-1, 0)];
          diagonalDirections = [(1, 1), (1, -1), (-1, 1), (-1, -1)]
      in if cgOffsetHit b row col pawnDirections (Pawn, attackingColor) then True
         else if cgOffsetHit b row col knightOffsets (Knight, attackingColor) then True
         else if cgOffsetHit b row col kingDirections (King, attackingColor) then True
         else if list_ex (\<lambda>(rowDir, colDir).
                    cgRayHit b (row + rowDir) (col + colDir) rowDir colDir
                      (Rook, attackingColor) (Queen, attackingColor)) straightDirections then True
         else list_ex (\<lambda>(rowDir, colDir).
                    cgRayHit b (row + rowDir) (col + colDir) rowDir colDir
                      (Bishop, attackingColor) (Queen, attackingColor)) diagonalDirections)"

definition ChessGame_isKingInCheck :: "ChessGame \<Rightarrow> color \<Rightarrow> bool" where
  "ChessGame_isKingInCheck this c =
     (let (kingRow, kingCol) = cg_kingPositions this c
      in ChessGame_isSquareAttacked this kingRow kingCol c)"

subsection \<open>Move generation\<close>

text \<open>
  calculatePawnMoves. The read of the square two rows ahead is unguarded; it happens only
  for a pawn on its starting row, where the square is on the board.
\<close>

definition ChessGame_calculatePawnMoves :: "ChessGame \<Rightarrow> int \<Rightarrow> int \<Rightarrow> color \<Rightarrow> (int \<times> int) list" where
  "ChessGame_calculatePawnMoves this row col c =
     (let direction = (if c = White then -1 else 1);
          startingRow = (if c = White then 6 else 1);
          b = cg_board this;
          forward =
            (if ChessGame_isInBounds (row + direction) col \<and> b (row + direction) col = None
             then (row + direction, col) #
                  (if row = startingRow \<and> b (row + 2 * direction) col = None
                   then [(row + 2 * direction, col)] else [])
             else []);
          captures =
            concat (map (\<lambda>colOffset.
              let newRow = row + direction; newCol = col + colOffset
              in if ChessGame_isInBounds newRow newCol
                 then (case b newRow newCol of
                         Some (k, tc) \<Rightarrow>
                           if tc \<noteq> c then [(newRow, newCol)]
                           else if cg_enPassantTarget this = Some (newRow, newCol) then [(newRow, newCol)]
                           else []
                       | None \<Rightarrow>
                           if cg_enPassantTarget this = Some (newRow, newCol) then [(newRow, newCol)]
                           else [])
                 else []) [-1, 1])
      in forward @ captures)"

text \<open>The ray loop shared by calculateRookMoves and calculateBishopMoves.\<close>

function cgSlide :: "cgboard \<Rightarrow> color \<Rightarrow> int \<Rightarrow> int \<Rightarrow> int \<Rightarrow> int \<Rightarrow> (int \<times> int) list" where
  "cgSlide b c currentRow currentCol rowDir colDir =
     (if ChessGame_isInBounds currentRow currentCol \<and> (rowDir \<noteq> 0 \<or> colDir \<noteq> 0)
      then (case b currentRow currentCol of
              None \<Rightarrow> (currentRow, currentCol) # cgSlide b c (currentRow + rowDir) (currentCol + colDir) rowDir colDir
            | Some (k, tc) \<Rightarrow> if tc \<noteq> c then [(currentRow, currentCol)] else [])
      else [])"
  by pat_completeness auto
termination
  by (relation "measure (\<lambda>(b, cl, r, c, dr, dc).
        if dr > 0 then nat (8 - r) else if dr < 0 then nat (r + 1)
        else if dc > 0 then nat (8 - c) else nat (c + 1))")
     (auto simp: ChessGame_isInBounds_def)

declare cgSlide.simps [simp del]

definition cgRays :: "cgboard \<Rightarrow> color \<Rightarrow> int \<Rightarrow> int \<Rightarrow> (int \<times> int) list \<Rightarrow> (int \<times> int) list" where
  "cgRays b c row col directions =
     concat (map (\<lambda>(rowDir, colDir). cgSlide b c (row + rowDir) (col + colDir) rowDir colDir) directions)"

definition ChessGame_calculateRookMoves :: "ChessGame \<Rightarrow> int \<Rightarrow> int \<Rightarrow> color \<Rightarrow> (int \<times> int) list" where
  "ChessGame_calculateRookMoves this row col c =
     cgRays (cg_board this) c row col [(0, 1), (1, 0), (0, -1), (-1, 0)]"

definition ChessGame_calculateBishopMoves :: "ChessGame \<Rightarrow> int \<Rightarrow> int \<Rightarrow> color \<Rightarrow> (int \<times> int) list" where
  "ChessGame_calculateBishopMoves this row col c =
     cgRays (cg_board this) c row col [(1, 1), (1, -1), (-1, 1), (-1, -1)]"

definition ChessGame_calculateQueenMoves :: "ChessGame \<Rightarrow> int \<Rightarrow> int \<Rightarrow> color \<Rightarrow> (int \<times> int) list" where
  "ChessGame_calculateQueenMoves this row col c =
     ChessGame_calculateRookMoves this row col c @ ChessGame_calculateBishopMoves this row col c"

definition cgSteps :: "cgboard \<Rightarrow> color \<Rightarrow> int \<Rightarrow> int \<Rightarrow> (int \<times> int) list \<Rightarrow> (int \<times> int) list" where
  "cgSteps b c row col offsets =
     concat (map (\<lambda>(rowOffset, colOffset).
       let newRow = row + rowOffset; newCol = col + colOffset
       in if ChessGame_isInBounds newRow newCol
          then (case b newRow newCol of
                  None \<Rightarrow> [(newRow, newCol)]
                | Some (k, tc) \<Rightarrow> if tc \<noteq> c then [(newRow, newCol)] else [])
          else []) offsets)"

definition ChessGame_calculateKnightMoves :: "ChessGame \<Rightarrow> int \<Rightarrow> int \<Rightarrow> color \<Rightarrow> (int \<times> int) list" where
  "ChessGame_calculateKnightMoves this row col c = cgSteps (cg_board this) c row col knightOffsets"

definition ChessGame_canCastle :: "ChessGame \<Rightarrow> int \<Rightarrow> int \<Rightarrow> color \<Rightarrow> bool" where
  "ChessGame_canCastle this row col c =
     (if c = White \<and> row = 7 \<and> col = 4 \<and> \<not> cg_isInCheck this White then True
      else if c = Black \<and> row = 0 \<and> col = 4 \<and> \<not> cg_isInCheck this Black then True
      else False)"

text \<open>
  calculateKingMoves. The reads of the squares beside the king are unguarded; canCastle has
  established that the king stands on column 4 of row 0 or 7.
\<close>

definition ChessGame_calculateKingMoves :: "ChessGame \<Rightarrow> int \<Rightarrow> int \<Rightarrow> color \<Rightarrow> (int \<times> int) list" where
  "ChessGame_calculateKingMoves this row col c =
     (let b = cg_board this;
          normal = cgSteps b c row col kingDirections
      in if ChessGame_canCastle this row col c
         then (let kingside =
                     (if kingSide (cg_castlingRights this c) \<and> b row (col + 1) = None \<and> b row (col + 2) = None
                      then (if \<not> ChessGame_isSquareAttacked this row col c
                               \<and> \<not> ChessGame_isSquareAttacked this row (col + 1) c
                               \<and> \<not> ChessGame_isSquareAttacked this row (col + 2) c
                            then [(row, col + 2)] else [])
                      else []);
                   queenside =
                     (if queenSide (cg_castlingRights this c) \<and> b row (col - 1) = None
                         \<and> b row (col - 2) = None \<and> b row (col - 3) = None
                      then (if \<not> ChessGame_isSquareAttacked this row col c
                               \<and> \<not> ChessGame_isSquareAttacked this row (col - 1) c
                               \<and> \<not> ChessGame_isSquareAttacked this row (col - 2) c
                            then [(row, col - 2)] else [])
                      else [])
               in normal @ kingside @ queenside)
         else normal)"

definition ChessGame_calculatePossibleMoves :: "ChessGame \<Rightarrow> int \<Rightarrow> int \<Rightarrow> (int \<times> int) list" where
  "ChessGame_calculatePossibleMoves this row col =
     (case cg_board this row col of
        None \<Rightarrow> []
      | Some (t, c) \<Rightarrow>
          (case t of
             Pawn \<Rightarrow> ChessGame_calculatePawnMoves this row col c
           | Rook \<Rightarrow> ChessGame_calculateRookMoves this row col c
           | Knight \<Rightarrow> ChessGame_calculateKnightMoves this row col c
           | Bishop \<Rightarrow> ChessGame_calculateBishopMoves this row col c
           | Queen \<Rightarrow> ChessGame_calculateQueenMoves this row col c
           | King \<Rightarrow> ChessGame_calculateKingMoves this row col c))"

subsection \<open>The legality filter\<close>

text \<open>
  calculateLegalMoves tries every candidate on the live board: it writes the move into
  \<^verbatim>\<open>this.board\<close> and \<^verbatim>\<open>this.kingPositions\<close>, asks isKingInCheck, and then puts back a copy
  of the board it saved and the king position it saved. \<open>cgTryMove\<close> is the body of the
  loop up to the check test, \<open>cgRestore\<close> the restoring part.
\<close>

definition cgSetCell :: "ChessGame \<Rightarrow> int \<Rightarrow> int \<Rightarrow> cgpiece option \<Rightarrow> ChessGame" where
  "cgSetCell this row col p = this\<lparr>cg_board := setCell (cg_board this) row col p\<rparr>"

definition cgTryMove :: "ChessGame \<Rightarrow> cgpiece \<Rightarrow> int \<Rightarrow> int \<Rightarrow> int \<Rightarrow> int \<Rightarrow> ChessGame \<times> (int \<times> int) option" where
  "cgTryMove this p row col toRow toCol =
     (let c = snd p;
          capturedPiece = cg_board this toRow toCol;
          this1 = (if fst p = Pawn \<and> col \<noteq> toCol \<and> capturedPiece = None
                   then (let enPassantRow = (if c = White then toRow + 1 else toRow - 1)
                         in cgSetCell this enPassantRow toCol None)
                   else this);
          this2 = cgSetCell this1 toRow toCol (Some p);
          this3 = cgSetCell this2 row col None;
          this4 = (if fst p = King \<and> abs (col - toCol) > 1
                   then (let rookCol = (if toCol = 6 then 7 else 0);
                             newRookCol = (if toCol = 6 then 5 else 3);
                             rook = cg_board this3 row rookCol
                         in cgSetCell (cgSetCell this3 row newRookCol rook) row rookCol None)
                   else this3)
      in if fst p = King
         then (this4\<lparr>cg_kingPositions := (cg_kingPositions this4)(c := (toRow, toCol))\<rparr>,
               Some (cg_kingPositions this4 c))
         else (this4, None))"

definition cgRestore :: "ChessGame \<Rightarrow> cgboard \<Rightarrow> color \<Rightarrow> (int \<times> int) option \<Rightarrow> ChessGame" where
  "cgRestore this originalBoard c originalKingPos =
     (let this1 = this\<lparr>cg_board := ChessGame_deepCopyBoard originalBoard\<rparr>
      in case originalKingPos of
           None \<Rightarrow> this1
         | Some pos \<Rightarrow> this1\<lparr>cg_kingPositions := (cg_kingPositions this1)(c := pos)\<rparr>)"

text \<open>
  \<open>cgLegalStep\<close> is one iteration of the loop, on the pair of the array \<^verbatim>\<open>legalMoves\<close>
  and the game.
\<close>

definition cgLegalStep ::
  "cgpiece \<Rightarrow> int \<Rightarrow> int \<Rightarrow> (int \<times> int) list \<times> ChessGame \<Rightarrow> int \<times> int \<Rightarrow> (int \<times> int) list \<times> ChessGame" where
  "cgLegalStep p row col st m =
     (let this = snd st;
          originalBoard = ChessGame_deepCopyBoard (cg_board this);
          (this1, originalKingPos) = cgTryMove this p row col (fst m) (snd m);
          inCheck = ChessGame_isKingInCheck this1 (snd p);
          this2 = cgRestore this1 originalBoard (snd p) originalKingPos
      in (if \<not> inCheck then fst st @ [m] else fst st, this2))"

definition cgLegalLoop :: "ChessGame \<Rightarrow> cgpiece \<Rightarrow> int \<Rightarrow> int \<Rightarrow> (int \<times> int) list \<Rightarrow> (int \<times> int) list \<times> ChessGame" where
  "cgLegalLoop this p row col moves = foldl (cgLegalStep p row col) ([], this) moves"

definition ChessGame_calculateLegalMoves :: "ChessGame \<Rightarrow> int \<Rightarrow> int \<Rightarrow> (int \<times> int) list \<times> ChessGame" where
  "ChessGame_calculateLegalMoves this row col =
     (case cg_board this row col of
        None \<Rightarrow> ([], this)
      | Some p \<Rightarrow> cgLegalLoop this p row col (ChessGame_calculatePossibleMoves this row col))"

text \<open>
  playerHasLegalMoves: one iteration of the board scan, on the pair of a flag and the game;
  the flag is set once the method has returned true, and the iterations after that do
  nothing.
\<close>

definition cgHasLegalMovesStep :: "color \<Rightarrow> bool \<times> ChessGame \<Rightarrow> int \<times> int \<Rightarrow> bool \<times> ChessGame" where
  "cgHasLegalMovesStep c st sq =
     (if fst st then st
      else case cg_board (snd st) (fst sq) (snd sq) of
             None \<Rightarrow> st
           | Some (k, pc) \<Rightarrow>
               if pc = c
               then (let (legalMoves, this1) = ChessGame_calculateLegalMoves (snd st) (fst sq) (snd sq)
                     in (length legalMoves > 0, this1))
               else st)"

definition ChessGame_playerHasLegalMoves :: "ChessGame \<Rightarrow> color \<Rightarrow> bool \<times> ChessGame" where
  "ChessGame_playerHasLegalMoves this c = foldl (cgHasLegalMovesStep c) (False, this) squares"

definition ChessGame_checkGameEndConditions :: "ChessGame \<Rightarrow> ChessGame" where
  "ChessGame_checkGameEndConditions this =
     (let currentColor = cg_currentPlayer this;
          (hasLegalMoves, this1) = ChessGame_playerHasLegalMoves this currentColor
      in if \<not> hasLegalMoves
         then (if cg_isInCheck this1 currentColor
               then this1\<lparr>cg_gameOver := True,
                          cg_gameStatus := ''Checkmate! '' @ (if currentColor = White then ''Black'' else ''White'') @ '' wins''\<rparr>
               else this1\<lparr>cg_gameOver := True, cg_gameStatus := ''Stalemate! Game is a draw''\<rparr>)
         else if cg_isInCheck this1 currentColor
         then this1\<lparr>cg_gameStatus := (if currentColor = White then ''White'' else ''Black'') @ '' is in check!''\<rparr>
         else this1\<lparr>cg_gameStatus := []\<rparr>)"

subsection \<open>Applying a move and navigating\<close>

definition cgPushCaptured :: "ChessGame \<Rightarrow> color \<Rightarrow> cgpiece option \<Rightarrow> ChessGame" where
  "cgPushCaptured this c p =
     this\<lparr>cg_capturedPieces := (cg_capturedPieces this)(c := cg_capturedPieces this c @ [p])\<rparr>"

text \<open>
  The body of ChessGame.makeMove from the reset of the en-passant target to the switch of
  the player, for the piece \<open>p\<close> found on the source square.
\<close>

definition cgMakeMove_record ::
  "ChessGame \<Rightarrow> cgpiece \<Rightarrow> int \<Rightarrow> int \<Rightarrow> int \<Rightarrow> int \<Rightarrow> kind option \<Rightarrow> ChessGame" where
  "cgMakeMove_record this p fromRow fromCol toRow toCol promotionPiece =
     (let capturedPiece = cg_board this toRow toCol;
          pieceType = fst p;
          c = snd p;
          opponentColor = (if c = White then Black else White);
          oldEnPassantTarget = cg_enPassantTarget this;
          s0 = this\<lparr>cg_enPassantTarget := None\<rparr>;
          (s1, specialMove1, enPassantCapture) =
             (if pieceType = Pawn \<and> fromCol \<noteq> toCol \<and> capturedPiece = None
              then (let enPassantRow = (if c = White then toRow + 1 else toRow - 1);
                        capturedPawn = cg_board s0 enPassantRow toCol
                    in (cgPushCaptured (cgSetCell s0 enPassantRow toCol None) c capturedPawn,
                        ''en passant'', Some (enPassantRow, toCol)))
              else (s0, [], None));
          (s2, specialMove2, promotedPiece) =
             (if pieceType = Pawn \<and> ((c = White \<and> toRow = 0) \<or> (c = Black \<and> toRow = 7))
              then (let promoted = (case promotionPiece of Some k \<Rightarrow> k | None \<Rightarrow> Queen)
                    in (cgSetCell (cgSetCell s1 fromRow fromCol None) toRow toCol (Some (promoted, c)),
                        ''promotion'', Some promoted))
              else (s1, specialMove1, None));
          s3 = (if pieceType = Pawn \<and> abs (fromRow - toRow) = 2
                then s2\<lparr>cg_enPassantTarget := Some (if c = White then toRow + 1 else toRow - 1, toCol)\<rparr>
                else s2);
          (s4, specialMove3, castling) =
             (if pieceType = King \<and> abs (fromCol - toCol) > 1
              then (let isKingsideCastling = (toCol > fromCol);
                        rookFromCol = (if isKingsideCastling then 7 else 0);
                        rookToCol = (if isKingsideCastling then 5 else 3);
                        rook = cg_board s3 fromRow rookFromCol;
                        side = (if isKingsideCastling then Kingside else Queenside)
                    in (cgSetCell (cgSetCell s3 fromRow rookToCol rook) fromRow rookFromCol None,
                        ''castling '' @ (if isKingsideCastling then ''kingside'' else ''queenside''),
                        Some side))
              else (s3, specialMove2, None));
          s5 = (if pieceType = King
                then s4\<lparr>cg_castlingRights :=
                          setQueenSide (setKingSide (cg_castlingRights s4) c False) c False,
                        cg_kingPositions := (cg_kingPositions s4)(c := (toRow, toCol))\<rparr>
                else s4);
          s6 = (if pieceType = Rook
                then (if fromRow = 7 \<and> fromCol = 0 \<and> c = White
                      then s5\<lparr>cg_castlingRights := setQueenSide (cg_castlingRights s5) White False\<rparr>
                      else if fromRow = 7 \<and> fromCol = 7 \<and> c = White
                      then s5\<lparr>cg_castlingRights := setKingSide (cg_castlingRights s5) White False\<rparr>
                      else if fromRow = 0 \<and> fromCol = 0 \<and> c = Black
                      then s5\<lparr>cg_castlingRights := setQueenSide (cg_castlingRights s5) Black False\<rparr>
                      else if fromRow = 0 \<and> fromCol = 7 \<and> c = Black
                      then s5\<lparr>cg_castlingRights := setKingSide (cg_castlingRights s5) Black False\<rparr>
                      else s5)
                else s5);
          s7 = (if capturedPiece = Some (Rook, White)
                then (let t = (if toRow = 7 \<and> toCol = 0
                               then s6\<lparr>cg_castlingRights := setQueenSide (cg_castlingRights s6) White False\<rparr>
                               else s6)
                      in if toRow = 7 \<and> toCol = 7
                         then t\<lparr>cg_castlingRights := setKingSide (cg_castlingRights t) White False\<rparr>
                         else t)
                else if capturedPiece = Some (Rook, Black)
                then (let t = (if toRow = 0 \<and> toCol = 0
                               then s6\<lparr>cg_castlingRights := setQueenSide (cg_castlingRights s6) Black False\<rparr>
                               else s6)
                      in if toRow = 0 \<and> toCol = 7
                         then t\<lparr>cg_castlingRights := setKingSide (cg_castlingRights t) Black False\<rparr>
                         else t)
                else s6);
          move = \<lparr>cm_from = (fromRow, fromCol), cm_to = (toRow, toCol), cm_piece = p,
                  cm_capturedPiece = capturedPiece, cm_player = c,
                  cm_enPassantCapture = enPassantCapture, cm_promotedPiece = promotedPiece,
                  cm_castling = castling, cm_enPassantTarget = oldEnPassantTarget,
                  cm_castlingRights = cg_castlingRights s7, cm_specialMove = specialMove3\<rparr>;
          s8 = s7\<lparr>cg_moveHistory := cg_moveHistory s7 @ [move]\<rparr>;
          s9 = (if capturedPiece \<noteq> None \<and> enPassantCapture = None
                then cgPushCaptured s8 c capturedPiece else s8);
          s10 = (if promotedPiece = None
                 then cgSetCell (cgSetCell s9 toRow toCol (Some p)) fromRow fromCol None
                 else s9)
      in s10\<lparr>cg_currentPlayer := opponentColor\<rparr>)"

text \<open>The two assignments to \<^verbatim>\<open>this.isInCheck\<close> that makeMove and goToMove share.\<close>

definition cgUpdateCheck :: "ChessGame \<Rightarrow> ChessGame" where
  "cgUpdateCheck this =
     (let s1 = this\<lparr>cg_isInCheck := (cg_isInCheck this)(White := ChessGame_isKingInCheck this White)\<rparr>
      in s1\<lparr>cg_isInCheck := (cg_isInCheck s1)(Black := ChessGame_isKingInCheck s1 Black)\<rparr>)"

text \<open>
  ChessGame.makeMove. The source splits the string of the source cell in its third
  statement, which throws on an empty cell before anything is written: the result is
  \<open>Thrown\<close> and the game is as it was. The calls that only redraw the page (setupBoard,
  addMoveToHistory, updateNavigationButtons) are left out.
\<close>

definition ChessGame_makeMove ::
  "ChessGame \<Rightarrow> int \<Rightarrow> int \<Rightarrow> int \<Rightarrow> int \<Rightarrow> kind option \<Rightarrow> ChessGame completion" where
  "ChessGame_makeMove this fromRow fromCol toRow toCol promotionPiece =
     (case cg_board this fromRow fromCol of
        None \<Rightarrow> Thrown
      | Some p \<Rightarrow>
          let s11 = cgMakeMove_record this p fromRow fromCol toRow toCol promotionPiece;
              s13 = cgUpdateCheck s11;
              s14 = ChessGame_checkGameEndConditions s13;
              s15 = s14\<lparr>cg_boardStates := cg_boardStates s14 @ [ChessGame_deepCopyBoard (cg_board s14)]\<rparr>
          in Normal (s15\<lparr>cg_currentMoveIndex := int (length (cg_moveHistory s15))\<rparr>))"

definition ChessGame_truncateMoveHistory :: "ChessGame \<Rightarrow> ChessGame" where
  "ChessGame_truncateMoveHistory this =
     this\<lparr>cg_moveHistory := slice0 (cg_moveHistory this) (cg_currentMoveIndex this),
          cg_boardStates := slice0 (cg_boardStates this) (cg_currentMoveIndex this + 1)\<rparr>"

text \<open>
  ChessGame.goToMove always replays the recorded moves from the initial position; the
  stored boardStates are not read. One iteration of the replay loop:
\<close>

definition cgReplayStep :: "ChessGame \<Rightarrow> CGMove \<Rightarrow> ChessGame" where
  "cgReplayStep this move =
     (let (fromRow, fromCol) = cm_from move;
          (toRow, toCol) = cm_to move;
          p = cg_board this fromRow fromCol;
          s1 = (if cm_capturedPiece move \<noteq> None
                then cgPushCaptured this (cm_player move) (cm_capturedPiece move) else this);
          s2 = (case cm_enPassantCapture move of
                  None \<Rightarrow> s1
                | Some (epRow, epCol) \<Rightarrow>
                    (let capturedPawn = cg_board s1 epRow epCol
                     in cgPushCaptured (cgSetCell s1 epRow epCol None) (cm_player move) capturedPawn));
          s3 = (case cm_castling move of
                  None \<Rightarrow> s2
                | Some side \<Rightarrow>
                    (let row = fromRow;
                         rookFromCol = (if side = Kingside then 7 else 0);
                         rookToCol = (if side = Kingside then 5 else 3);
                         rook = cg_board s2 row rookFromCol
                     in cgSetCell (cgSetCell s2 row rookToCol rook) row rookFromCol None));
          s4 = (case cm_promotedPiece move of
                  Some k \<Rightarrow> cgSetCell (cgSetCell s3 toRow toCol (Some (k, cm_player move))) fromRow fromCol None
                | None \<Rightarrow> cgSetCell (cgSetCell s3 toRow toCol p) fromRow fromCol None);
          s5 = (case p of
                  None \<Rightarrow> s4
                | Some (k, pc) \<Rightarrow>
                    if k = King
                    then s4\<lparr>cg_kingPositions := (cg_kingPositions s4)(cm_player move := (toRow, toCol))\<rparr>
                    else s4);
          s6 = s5\<lparr>cg_castlingRights := cm_castlingRights move\<rparr>
      in s6\<lparr>cg_enPassantTarget := cm_enPassantTarget move\<rparr>)"

definition ChessGame_goToMove :: "ChessGame \<Rightarrow> int \<Rightarrow> ChessGame" where
  "ChessGame_goToMove this moveIndex =
     (if moveIndex < 0 \<or> moveIndex > int (length (cg_moveHistory this)) then this
      else let s0 = this\<lparr>cg_board := ChessGame_createInitialBoard,
                         cg_kingPositions := initialKingPositions,
                         cg_isInCheck := (\<lambda>c. False),
                         cg_castlingRights := initialCastlingRights,
                         cg_enPassantTarget := None,
                         cg_capturedPieces := (\<lambda>c. []),
                         cg_gameOver := False,
                         cg_gameStatus := []\<rparr>;
               s1 = foldl cgReplayStep s0 (take (nat moveIndex) (cg_moveHistory s0));
               s2 = s1\<lparr>cg_currentMoveIndex := moveIndex\<rparr>;
               s3 = s2\<lparr>cg_currentPlayer := (if moveIndex mod 2 = 0 then White else Black)\<rparr>;
               s5 = cgUpdateCheck s3
           in if moveIndex = int (length (cg_moveHistory s5))
              then ChessGame_checkGameEndConditions s5
              else s5\<lparr>cg_gameOver := False, cg_gameStatus := []\<rparr>)"

text \<open>The constructor and resetGame build the same game.\<close>

definition ChessGame_new :: ChessGame where
  "ChessGame_new =
     \<lparr>cg_board = ChessGame_createInitialBoard, cg_currentPlayer = White,
      cg_selectedPiece = None, cg_possibleMoves = [], cg_moveHistory = [],
      cg_capturedPieces = (\<lambda>c. []), cg_currentMoveIndex = 0,
      cg_boardStates = [ChessGame_deepCopyBoard ChessGame_createInitialBoard],
      cg_kingPositions = initialKingPositions, cg_isInCheck = (\<lambda>c. False),
      cg_gameOver = False, cg_gameStatus = [], cg_castlingRights = initialCastlingRights,
      cg_enPassantTarget = None, cg_promotionPending = False, cg_promotionMove = None\<rparr>"

section \<open>Decoding a move token\<close>

text \<open>
  PGNService.parseAlgebraicNotation (layered) and processAlgebraicNotation of pgn.js
  (monolithic) take a move token apart with the same statements; \<open>parseToken\<close> is that common
  part, from the stripping of the check suffix to the two destination characters. It ends
  in one of three ways: \<^verbatim>\<open>moveNotation[0].toUpperCase()\<close> throws a TypeError on an empty
  string, the remaining notation is shorter than two characters, or the fields are found.
\<close>

record token =
  t_pieceType :: kind
  t_promotion :: "kind option"
  t_capture :: bool
  t_sourceFile :: "char option"
  t_sourceRank :: "char option"
  t_destFile :: char
  t_destRank :: char
  t_notation :: string

datatype tokenResult = TokenTypeError | TokenTooShort string | Token token

definition stripCheck :: "string \<Rightarrow> string" where
  "stripCheck s = (if s \<noteq> [] \<and> (last s = CHR ''+'' \<or> last s = CHR ''#'') then butlast s else s)"

definition promotionPieceMap :: "string \<Rightarrow> kind" where
  "promotionPieceMap promoteTo =
     (if promoteTo = ''Q'' then Queen else if promoteTo = ''R'' then Rook
      else if promoteTo = ''B'' then Bishop else if promoteTo = ''N'' then Knight else Queen)"

definition pieceLetterMap :: "char \<Rightarrow> kind option" where
  "pieceLetterMap ch =
     (if ch = CHR ''K'' then Some King else if ch = CHR ''Q'' then Some Queen
      else if ch = CHR ''R'' then Some Rook else if ch = CHR ''B'' then Some Bishop
      else if ch = CHR ''N'' then Some Knight else None)"

definition isFileChar :: "char \<Rightarrow> bool" where
  "isFileChar ch = (of_char ch \<ge> (97::nat) \<and> of_char ch \<le> (104::nat))"

definition isRankChar :: "char \<Rightarrow> bool" where
  "isRankChar ch = (of_char ch \<ge> (49::nat) \<and> of_char ch \<le> (56::nat))"

text \<open>\<^verbatim>\<open>s.replace('x', '')\<close> removes the first \<open>x\<close>.\<close>

fun removeFirst :: "char \<Rightarrow> string \<Rightarrow> string" where
  "removeFirst ch [] = []"
| "removeFirst ch (x # xs) = (if x = ch then xs else x # removeFirst ch xs)"

definition parseToken :: "string \<Rightarrow> tokenResult" where
  "parseToken moveNotation0 =
     (let n1 = stripCheck moveNotation0;
          (n2, promotionPiece) =
             (if CHR ''='' \<in> set n1
              then (takeWhile (\<lambda>ch. ch \<noteq> CHR ''='') n1,
                    Some (promotionPieceMap
                            (takeWhile (\<lambda>ch. ch \<noteq> CHR ''='') (tl (dropWhile (\<lambda>ch. ch \<noteq> CHR ''='') n1)))))
              else (n1, None))
      in case n2 of
           [] \<Rightarrow> TokenTypeError
         | first # rest \<Rightarrow>
             let (pieceType, n3) =
                   (case pieceLetterMap first of Some k \<Rightarrow> (k, rest) | None \<Rightarrow> (Pawn, n2));
                 capture = (CHR ''x'' \<in> set n3);
                 sourceFile1 =
                   (if capture \<and> pieceType = Pawn \<and> isFileChar (hd n3) then Some (hd n3) else None);
                 n4 = (if capture then removeFirst (CHR ''x'') n3 else n3);
                 (sourceFile, sourceRank, n5) =
                   (if pieceType \<noteq> Pawn \<and> length n4 > 2
                    then (if length n4 = 3 \<and> isFileChar (hd n4) then (Some (hd n4), None, tl n4)
                          else if length n4 = 3 \<and> isRankChar (hd n4) then (sourceFile1, Some (hd n4), tl n4)
                          else if length n4 = 4 then (Some (n4 ! 0), Some (n4 ! 1), drop 2 n4)
                          else (sourceFile1, None, n4))
                    else (sourceFile1, None, n4))
             in if length n5 \<ge> 2
                then Token \<lparr>t_pieceType = pieceType, t_promotion = promotionPiece, t_capture = capture,
                            t_sourceFile = sourceFile, t_sourceRank = sourceRank,
                            t_destFile = n5 ! 0, t_destRank = n5 ! 1, t_notation = n5\<rparr>
                else TokenTooShort n5)"

text \<open>The two lookup tables; a character that is no key gives \<open>undefined\<close>.\<close>

definition fileToCol :: "char \<Rightarrow> int option" where
  "fileToCol ch = (if isFileChar ch then Some (int (of_char ch) - 97) else None)"

definition rankToRow :: "char \<Rightarrow> int option" where
  "rankToRow ch = (if isRankChar ch then Some (56 - int (of_char ch)) else None)"

text \<open>
  The two \<open>continue\<close> tests on the disambiguation: a given source file or rank must map to
  the column or row of the square.
\<close>

definition sourceMatches :: "token \<Rightarrow> int \<Rightarrow> int \<Rightarrow> bool" where
  "sourceMatches t row col =
     ((case t_sourceFile t of None \<Rightarrow> True | Some f \<Rightarrow> fileToCol f = Some col)
      \<and> (case t_sourceRank t of None \<Rightarrow> True | Some r \<Rightarrow> rankToRow r = Some row))"

subsection \<open>PGNService.parseAlgebraicNotation (layered)\<close>

record ParsedMove =
  pm_from :: "int \<times> int"
  pm_to :: "int option \<times> int option"
  pm_pieceType :: kind
  pm_promotion :: "kind option"
  pm_capture :: bool
  pm_castling :: "castleSide option"
  pm_notation :: string

definition PGNService_parseCastlingMove :: "string \<Rightarrow> color \<Rightarrow> ParsedMove" where
  "PGNService_parseCastlingMove moveNotation c =
     (let isKingside = (moveNotation = ''O-O'');
          row = (if c = White then 7 else 0);
          kingCol = 4;
          destCol = (if isKingside then 6 else 2)
      in \<lparr>pm_from = (row, kingCol), pm_to = (Some row, Some destCol), pm_pieceType = King,
          pm_promotion = None, pm_capture = False,
          pm_castling = Some (if isKingside then Kingside else Queenside),
          pm_notation = moveNotation\<rparr>)"

text \<open>
  The search loop of the layered parser: the first square, in row-major order, that holds a
  piece of the colour and of the type and passes the disambiguation. Where the legality of
  the move would be tested the source has only the comment
  \<^verbatim>\<open>// This is where we would need to check if the move is legal\<close>.
\<close>

definition PGNService_findPiece :: "board \<Rightarrow> color \<Rightarrow> token \<Rightarrow> (int \<times> int) option" where
  "PGNService_findPiece b c t =
     find (\<lambda>(row, col).
        case Board_getPiece b row col of
          None \<Rightarrow> False
        | Some p \<Rightarrow> pcolor p = c \<and> ptype p = t_pieceType t \<and> sourceMatches t row col) squares"

text \<open>
  The result is \<open>Normal None\<close> for the \<open>null\<close> returned on an empty token and \<open>Thrown\<close> for
  a PGNParseError (every other exception is re-thrown as one).
\<close>

definition PGNService_parseAlgebraicNotation ::
  "string \<Rightarrow> color \<Rightarrow> board \<Rightarrow> GameState \<Rightarrow> ParsedMove option completion" where
  "PGNService_parseAlgebraicNotation moveNotation c b gs =
     (if moveNotation = [] then Normal None
      else if moveNotation = ''O-O'' \<or> moveNotation = ''O-O-O''
      then Normal (Some (PGNService_parseCastlingMove moveNotation c))
      else case parseToken moveNotation of
             TokenTypeError \<Rightarrow> Thrown
           | TokenTooShort n \<Rightarrow> Thrown
           | Token t \<Rightarrow>
               (case PGNService_findPiece b c t of
                  None \<Rightarrow> Thrown
                | Some (fromRow, fromCol) \<Rightarrow>
                    Normal (Some \<lparr>pm_from = (fromRow, fromCol),
                                  pm_to = (rankToRow (t_destRank t), fileToCol (t_destFile t)),
                                  pm_pieceType = t_pieceType t, pm_promotion = t_promotion t,
                                  pm_capture = t_capture t, pm_castling = None,
                                  pm_notation = t_notation t\<rparr>)))"

subsection \<open>processAlgebraicNotation of pgn.js (monolithic)\<close>

text \<open>
  The search loop of pgn.js: for every square, in row-major order, that holds a piece of the
  player to move, of the type, passing the disambiguation, the legal moves are computed, and
  the first square whose legal moves hold the destination makes the move. One iteration
  works on the pair of the square found and the game; once a square is found (the source
  leaves both loops with \<open>break\<close>) the iterations after that do nothing.
\<close>

definition destIn :: "(int \<times> int) list \<Rightarrow> int option \<Rightarrow> int option \<Rightarrow> bool" where
  "destIn legalMoves destRow destCol =
     list_ex (\<lambda>(r, c). Some r = destRow \<and> Some c = destCol) legalMoves"

definition pgnSearchStep :: "token \<Rightarrow> (int \<times> int) option \<times> ChessGame \<Rightarrow> int \<times> int \<Rightarrow> (int \<times> int) option \<times> ChessGame" where
  "pgnSearchStep t st sq =
     (if fst st \<noteq> None then st
      else case cg_board (snd st) (fst sq) (snd sq) of
             None \<Rightarrow> st
           | Some (k, pc) \<Rightarrow>
               if pc \<noteq> cg_currentPlayer (snd st) then st
               else if k \<noteq> t_pieceType t then st
               else if \<not> sourceMatches t (fst sq) (snd sq) then st
               else (let (legalMoves, game1) = ChessGame_calculateLegalMoves (snd st) (fst sq) (snd sq)
                     in if destIn legalMoves (rankToRow (t_destRank t)) (fileToCol (t_destFile t))
                        then (Some sq, game1)
                        else (None, game1)))"

definition pgnSearchLoop :: "ChessGame \<Rightarrow> token \<Rightarrow> (int \<times> int) list \<Rightarrow> (int \<times> int) option \<times> ChessGame" where
  "pgnSearchLoop game t sqs = foldl (pgnSearchStep t) (None, game) sqs"

definition processCastlingMove :: "string \<Rightarrow> ChessGame \<Rightarrow> bool completion \<times> ChessGame" where
  "processCastlingMove moveNotation game =
     (let isKingside = (moveNotation = ''O-O'');
          c = cg_currentPlayer game;
          row = (if c = White then 7 else 0);
          kingCol = 4
      in case cg_board game row kingCol of
           None \<Rightarrow> (Normal False, game)
         | Some (k, pc) \<Rightarrow>
             if k \<noteq> King then (Normal False, game)
             else (case ChessGame_makeMove game row kingCol row (if isKingside then 6 else 2) None of
                     Thrown \<Rightarrow> (Thrown, game)
                   | Normal game1 \<Rightarrow> (Normal True, game1)))"

definition processAlgebraicNotation :: "string \<Rightarrow> ChessGame \<Rightarrow> bool completion \<times> ChessGame" where
  "processAlgebraicNotation moveNotation game =
     (if moveNotation = [] then (Normal False, game)
      else if moveNotation = ''O-O'' \<or> moveNotation = ''O-O-O''
      then processCastlingMove moveNotation game
      else case parseToken moveNotation of
             TokenTypeError \<Rightarrow> (Thrown, game)
           | TokenTooShort n \<Rightarrow> (Normal False, game)
           | Token t \<Rightarrow>
               (case pgnSearchLoop game t squares of
                  (None, game1) \<Rightarrow> (Normal False, game1)
                | (Some (row, col), game1) \<Rightarrow>
                    (case (rankToRow (t_destRank t), fileToCol (t_destFile t)) of
                       (Some destRow, Some destCol) \<Rightarrow>
                         (case ChessGame_makeMove game1 row col destRow destCol (t_promotion t) of
                            Thrown \<Rightarrow> (Thrown, game1)
                          | Normal game2 \<Rightarrow> (Normal True, game2))
                     | _ \<Rightarrow> (Normal False, game1))))"

section \<open>Notions the properties are stated with\<close>

text \<open>
  The controllers that the operations of GameController can produce: initialize from any
  wiring of the objects, then any sequence of resetGame, makeMove, goToMove,
  handleSquareClick and completePromotion with any arguments (loadPGN is resetGame followed
  by calls of makeMove).
\<close>

inductive reachable :: "GameController \<Rightarrow> bool" where
  reach_initialize: "reachable (GameController_initialize this)"
| reach_resetGame: "reachable this \<Longrightarrow> reachable (GameController_resetGame this)"
| reach_makeMove: "reachable this \<Longrightarrow>
     reachable (snd (GameController_makeMove this fromRow fromCol toRow toCol specialMove promotionPiece))"
| reach_goToMove: "reachable this \<Longrightarrow> reachable (GameController_goToMove this moveIndex)"
| reach_handleSquareClick: "reachable this \<Longrightarrow> reachable (GameController_handleSquareClick this row col)"
| reach_completePromotion: "reachable this \<Longrightarrow> reachable (GameController_completePromotion this pieceType)"

definition historyInvariant :: "GameState \<Rightarrow> bool" where
  "historyInvariant gs =
     (length (boardStates gs) = length (moveHistory gs) + 1
      \<and> 0 \<le> currentMoveIndex gs
      \<and> currentMoveIndex gs \<le> int (length (moveHistory gs)))"

text \<open>A move record and a board to append in examples.\<close>

definition exampleMove :: Move where
  "exampleMove =
     \<lparr>m_piece = \<lparr>ptype = Knight, pcolor = White, hasMoved = True\<rparr>,
      m_from = (7, 6), m_to = (5, 5), m_capturedPiece = None, m_player = White,
      m_enPassantCapture = None, m_promotedPiece = None, m_castling = None,
      m_enPassantTarget = None, m_castlingRights = initialCastlingRights\<rparr>"

subsection \<open>Attack by movement pattern\<close>

text \<open>
  The attack relation as the specification words it, independent of both detectors and over
  cells that are a kind and a colour: a pawn attacks the two squares diagonally ahead of it
  (white pawns move towards row 0, black pawns towards row 7), a knight and a king the
  squares at their eight offsets, and a rook, a bishop and a queen the squares along their
  rays up to and including the first occupied one.
\<close>

definition forwardDir :: "color \<Rightarrow> int" where
  "forwardDir c = (if c = White then -1 else 1)"

definition pawnAttacks :: "color \<Rightarrow> int \<Rightarrow> int \<Rightarrow> int \<Rightarrow> int \<Rightarrow> bool" where
  "pawnAttacks c r k row col = (row = r + forwardDir c \<and> (col = k - 1 \<or> col = k + 1))"

definition offsetAttacks :: "(int \<times> int) list \<Rightarrow> int \<Rightarrow> int \<Rightarrow> int \<Rightarrow> int \<Rightarrow> bool" where
  "offsetAttacks offsets r k row col = ((row - r, col - k) \<in> set offsets)"

definition rayAttacks :: "(int \<Rightarrow> int \<Rightarrow> cgpiece option) \<Rightarrow> int \<Rightarrow> int \<Rightarrow> int \<Rightarrow> int \<Rightarrow> int \<times> int \<Rightarrow> bool" where
  "rayAttacks cells r k row col d =
     list_ex (\<lambda>n. row = r + n * fst d \<and> col = k + n * snd d
                  \<and> list_all (\<lambda>j. cells (r + j * fst d) (k + j * snd d) = None) [1..n - 1])
             [1..7]"

definition orthogonalDirections :: "(int \<times> int) list" where
  "orthogonalDirections = [(0, 1), (1, 0), (0, -1), (-1, 0)]"

definition diagonalDirections :: "(int \<times> int) list" where
  "diagonalDirections = [(1, 1), (1, -1), (-1, 1), (-1, -1)]"

definition pseudoAttacks ::
  "(int \<Rightarrow> int \<Rightarrow> cgpiece option) \<Rightarrow> kind \<Rightarrow> color \<Rightarrow> int \<Rightarrow> int \<Rightarrow> int \<Rightarrow> int \<Rightarrow> bool" where
  "pseudoAttacks cells t c r k row col =
     (case t of
        Pawn \<Rightarrow> pawnAttacks c r k row col
      | Knight \<Rightarrow> offsetAttacks knightOffsets r k row col
      | King \<Rightarrow> offsetAttacks kingDirections r k row col
      | Rook \<Rightarrow> list_ex (rayAttacks cells r k row col) orthogonalDirections
      | Bishop \<Rightarrow> list_ex (rayAttacks cells r k row col) diagonalDirections
      | Queen \<Rightarrow> list_ex (rayAttacks cells r k row col) (orthogonalDirections @ diagonalDirections))"

text \<open>Some piece of the colour opposing \<open>defendingColor\<close>, on a square of the board, attacks the square.\<close>

definition attackedByPattern :: "(int \<Rightarrow> int \<Rightarrow> cgpiece option) \<Rightarrow> int \<Rightarrow> int \<Rightarrow> color \<Rightarrow> bool" where
  "attackedByPattern cells row col defendingColor =
     list_ex (\<lambda>(r, k). case cells r k of
                          None \<Rightarrow> False
                        | Some (t, c) \<Rightarrow> c = opponent defendingColor \<and> pseudoAttacks cells t c r k row col)
             squares"

text \<open>The cells of a layered board as kind and colour.\<close>

definition cellsOf :: "board \<Rightarrow> int \<Rightarrow> int \<Rightarrow> cgpiece option" where
  "cellsOf b = (\<lambda>row col. map_option (\<lambda>p. (ptype p, pcolor p)) (Board_getPiece b row col))"

subsection \<open>Positions for the examples\<close>

text \<open>
  The board that holds exactly the listed pieces, for ChessGame and for the layered Board (a
  layered piece is listed with its kind, colour and hasMoved flag), and the game with that
  board and otherwise the constructor's values.
\<close>

definition cgBoardOf :: "((int \<times> int) \<times> cgpiece) list \<Rightarrow> cgboard" where
  "cgBoardOf ps = (\<lambda>row col. map_of ps (row, col))"

definition cgGameOn :: "((int \<times> int) \<times> cgpiece) list \<Rightarrow> ChessGame" where
  "cgGameOn ps = ChessGame_new\<lparr>cg_board := cgBoardOf ps\<rparr>"

definition boardOf :: "((int \<times> int) \<times> kind \<times> color \<times> bool) list \<Rightarrow> board" where
  "boardOf ps = (\<lambda>row col. map_option (\<lambda>(t, c, m). \<lparr>ptype = t, pcolor = c, hasMoved = m\<rparr>)
                              (map_of ps (row, col)))"

definition validatorOn :: "((int \<times> int) \<times> kind \<times> color \<times> bool) list \<Rightarrow> MoveValidator" where
  "validatorOn ps = \<lparr>v_board = boardOf ps, v_gameState = GameState_new\<rparr>"

subsection \<open>Played games\<close>

text \<open>
  The controller after main.js has wired the objects and called initialize, and the
  controller after makeMove has been called for each listed move in turn (a move is the
  source square, the destination square and the special-move tag). For ChessGame a move is
  the source and the destination square; a call of its makeMove that throws (the source
  square is empty, and the exception comes before the first write) leaves the game as it was.
\<close>

definition GameController_start :: GameController where
  "GameController_start = GameController_initialize GameController_new"

fun playMove :: "GameController \<Rightarrow> int \<times> int \<times> int \<times> int \<times> specialMove option \<Rightarrow> GameController" where
  "playMove c (fromRow, fromCol, toRow, toCol, specialMove) =
     snd (GameController_makeMove c fromRow fromCol toRow toCol specialMove None)"

definition playMoves :: "(int \<times> int \<times> int \<times> int \<times> specialMove option) list \<Rightarrow> GameController" where
  "playMoves ms = foldl playMove GameController_start ms"

fun cgPlayMove :: "ChessGame \<Rightarrow> int \<times> int \<times> int \<times> int \<Rightarrow> ChessGame" where
  "cgPlayMove g (fromRow, fromCol, toRow, toCol) =
     (case ChessGame_makeMove g fromRow fromCol toRow toCol None of
        Normal g1 \<Rightarrow> g1
      | Thrown \<Rightarrow> g)"

definition cgPlayMoves :: "(int \<times> int \<times> int \<times> int) list \<Rightarrow> ChessGame" where
  "cgPlayMoves ms = foldl cgPlayMove ChessGame_new ms"

subsection \<open>A king left attacked\<close>

text \<open>
  The king of \<open>mover\<close> stands on a square that a piece of the other colour attacks, and: the
  move is in the legal-move set computed for its source square, and applying it leaves the
  king of the player who moved attacked.
\<close>

definition kingAttackedIn :: "GameController \<Rightarrow> color \<Rightarrow> bool" where
  "kingAttackedIn c mover =
     attackedByPattern (cellsOf (board c)) (fst (kingPositions (gameState c) mover))
       (snd (kingPositions (gameState c) mover)) mover"

definition leavesOwnKingAttacked ::
  "GameController \<Rightarrow> int \<Rightarrow> int \<Rightarrow> int \<Rightarrow> int \<Rightarrow> specialMove option \<Rightarrow> bool" where
  "leavesOwnKingAttacked c fromRow fromCol toRow toCol specialMove =
     ((toRow, toCol, specialMove)
        \<in> set (fst (MoveValidator_calculateLegalMoves (moveValidator c) fromRow fromCol))
      \<and> kingAttackedIn (snd (GameController_makeMove c fromRow fromCol toRow toCol specialMove None))
            (currentPlayer (gameState c)))"

definition cgKingAttackedIn :: "ChessGame \<Rightarrow> color \<Rightarrow> bool" where
  "cgKingAttackedIn g mover =
     attackedByPattern (cg_board g) (fst (cg_kingPositions g mover)) (snd (cg_kingPositions g mover)) mover"

definition cgLeavesOwnKingAttacked :: "ChessGame \<Rightarrow> int \<Rightarrow> int \<Rightarrow> int \<Rightarrow> int \<Rightarrow> bool" where
  "cgLeavesOwnKingAttacked g fromRow fromCol toRow toCol =
     ((toRow, toCol) \<in> set (fst (ChessGame_calculateLegalMoves g fromRow fromCol))
      \<and> cgKingAttackedIn (cgPlayMove g (fromRow, fromCol, toRow, toCol)) (cg_currentPlayer g))"

subsection \<open>Replay and snapshot side by side\<close>

text \<open>
  A cell of the board as rebuildBoardState leaves it and as the snapshot branch of goToMove
  leaves it, for the same controller and index.
\<close>

definition replayAndSnapshotCell ::
  "GameController \<Rightarrow> int \<Rightarrow> int \<Rightarrow> int \<Rightarrow> piece option \<times> piece option" where
  "replayAndSnapshotCell c moveIndex row col =
     (Board_getPiece (board (GameController_rebuildBoardState c moveIndex)) row col,
      Board_getPiece (board (GameController_restoreSnapshot c moveIndex)) row col)"

section \<open>Board accessors at the boundary\<close>

text \<open>
  C10. For a coordinate pair with the row or the column outside 0..7, getPiece returns
  \<open>null\<close>, setPiece returns \<open>false\<close> and leaves the grid as it was, and movePiece (with
  either end out of range) returns \<open>null\<close> and leaves the grid as it was. The three are total
  functions of the model: no branch of the source reads the grid before the bounds test.
\<close>

theorem Board_accessors_out_of_bounds:
  assumes "row < 0 \<or> 7 < row \<or> col < 0 \<or> 7 < col"
  shows "Board_getPiece b row col = None
       \<and> Board_setPiece b row col p = (False, b)
       \<and> Board_movePiece b row col toRow toCol = (None, b)
       \<and> Board_movePiece b fromRow fromCol row col = (None, b)"
proof -
  from assms have "\<not> Board_isInBounds row col"
    by (auto simp: Board_isInBounds_def BOARD_SIZE_def)
  then show ?thesis
    by (simp add: Board_getPiece_def Board_setPiece_def Board_movePiece_def)
qed

text \<open>
  On the initial position, with the row on the board and the column one past the edge: the
  rook on a8 is neither moved off the board nor overwritten.
\<close>

theorem Board_accessors_out_of_bounds_witness:
  "7 < (8 :: int)
   \<and> Board_getPiece PieceFactory_createInitialBoard 0 0
       = Some \<lparr>ptype = Rook, pcolor = Black, hasMoved = False\<rparr>
   \<and> Board_getPiece PieceFactory_createInitialBoard 0 8 = None
   \<and> Board_setPiece PieceFactory_createInitialBoard 0 8
         (Some \<lparr>ptype = Queen, pcolor = White, hasMoved = False\<rparr>)
       = (False, PieceFactory_createInitialBoard)
   \<and> Board_movePiece PieceFactory_createInitialBoard 0 8 0 0 = (None, PieceFactory_createInitialBoard)
   \<and> Board_movePiece PieceFactory_createInitialBoard 0 0 0 8 = (None, PieceFactory_createInitialBoard)"
proof -
  have out: "(0 :: int) < 0 \<or> 7 < (0 :: int) \<or> (8 :: int) < 0 \<or> 7 < (8 :: int)"
    by simp
  have rook: "Board_getPiece PieceFactory_createInitialBoard 0 0
                = Some \<lparr>ptype = Rook, pcolor = Black, hasMoved = False\<rparr>"
    by code_simp
  from Board_accessors_out_of_bounds [OF out] rook show ?thesis
    by simp
qed

section \<open>What the status refresh leaves alone\<close>

text \<open>
  updateCheckStatus writes the two check flags and checkGameEndConditions yields gameOver and
  gameStatus; every other field of the controller and of the game state is as before.
\<close>

lemma updateCheckStatus_frame:
  "board (GameController_updateCheckStatus this) = board this"
  "validatorBoard (GameController_updateCheckStatus this) = validatorBoard this"
  "selectedPiece (GameController_updateCheckStatus this) = selectedPiece this"
  "possibleMoves (GameController_updateCheckStatus this) = possibleMoves this"
  "gameState (GameController_updateCheckStatus this) =
     (gameState this)\<lparr>isInCheck := isInCheck (gameState (GameController_updateCheckStatus this))\<rparr>"
  by (simp_all add: GameController_updateCheckStatus_def MoveValidator_updateCheckStatus_def
      moveValidator_def Let_def)

lemma applyEndConditions_frame:
  "board (GameController_applyEndConditions this) = board this"
  "validatorBoard (GameController_applyEndConditions this) = validatorBoard this"
  "selectedPiece (GameController_applyEndConditions this) = selectedPiece this"
  "possibleMoves (GameController_applyEndConditions this) = possibleMoves this"
  "gameState (GameController_applyEndConditions this) =
     (gameState this)\<lparr>gameOver := gameOver (gameState (GameController_applyEndConditions this)),
                       gameStatus := gameStatus (gameState (GameController_applyEndConditions this))\<rparr>"
  by (simp_all add: GameController_applyEndConditions_def Let_def split: prod.splits)

lemma refresh_history:
  "moveHistory (gameState (GameController_updateCheckStatus this)) = moveHistory (gameState this)"
  "boardStates (gameState (GameController_updateCheckStatus this)) = boardStates (gameState this)"
  "currentMoveIndex (gameState (GameController_updateCheckStatus this)) = currentMoveIndex (gameState this)"
  "moveHistory (gameState (GameController_applyEndConditions this)) = moveHistory (gameState this)"
  "boardStates (gameState (GameController_applyEndConditions this)) = boardStates (gameState this)"
  "currentMoveIndex (gameState (GameController_applyEndConditions this)) = currentMoveIndex (gameState this)"
  by (subst updateCheckStatus_frame(5) applyEndConditions_frame(5), simp)+

lemma makeMove_found:
  assumes "selectedPiece this = None \<or> Board_getPiece (board this) fromRow fromCol \<noteq> None"
    and "Board_getPiece (board this) fromRow fromCol = Some p"
  shows "GameController_makeMove this fromRow fromCol toRow toCol specialMove promotionPiece =
           (True, GameController_applyEndConditions (GameController_updateCheckStatus
                    (makeMove_record this p fromRow fromCol toRow toCol specialMove promotionPiece)))"
  using assms by (auto simp: GameController_makeMove_def split: option.splits)

section \<open>The history: one snapshot more than moves, and fork on append\<close>

lemma addMove_history:
  "GameState_addMove gs move b =
     gs\<lparr>moveHistory := (if currentMoveIndex gs < int (length (moveHistory gs))
                           then slice0 (moveHistory gs) (currentMoveIndex gs) else moveHistory gs) @ [move],
        boardStates := (if currentMoveIndex gs < int (length (moveHistory gs))
                           then slice0 (boardStates gs) (currentMoveIndex gs + 1) else boardStates gs) @ [b],
        currentMoveIndex := int (length ((if currentMoveIndex gs < int (length (moveHistory gs))
                           then slice0 (moveHistory gs) (currentMoveIndex gs) else moveHistory gs) @ [move]))\<rparr>"
  by (simp add: GameState_addMove_def GameState_truncateHistory_def Let_def)

lemma makeMove_special_history:
  assumes "makeMove_special b gs p fr fc tr tc sp pp = (b', gs', rest)"
  shows "moveHistory gs' = moveHistory gs \<and> boardStates gs' = boardStates gs
       \<and> currentMoveIndex gs' = currentMoveIndex gs"
  using assms
  by (auto simp: makeMove_special_def Let_def pushCaptured_def
           split: if_splits option.splits prod.splits)

lemma makeMove_record_invariant:
  assumes "historyInvariant (gameState this)"
  shows "historyInvariant (gameState (makeMove_record this p fr fc tr tc sp pp))"
proof -
  obtain b1 gs1 cap epc promo castling where sp:
    "makeMove_special (board this) ((gameState this)\<lparr>enPassantTarget := None\<rparr>) p fr fc tr tc sp pp
      = (b1, gs1, cap, epc, promo, castling)"
    by (metis prod_cases6)
  from makeMove_special_history [OF sp] have h1:
    "moveHistory gs1 = moveHistory (gameState this)" "boardStates gs1 = boardStates (gameState this)"
    "currentMoveIndex gs1 = currentMoveIndex (gameState this)"
    by simp_all
  show ?thesis
    using sp assms h1
    by (auto simp: makeMove_record_def Let_def historyInvariant_def pushCaptured_def
          addMove_history slice0_def min_def)
qed

lemma makeMove_invariant:
  assumes "historyInvariant (gameState this)"
  shows "historyInvariant (gameState (snd (GameController_makeMove this fr fc tr tc sp pp)))"
proof -
  have "\<And>p r c. historyInvariant (gameState (GameController_applyEndConditions
          (GameController_updateCheckStatus (makeMove_record this p r c tr tc sp pp))))"
    using makeMove_record_invariant [OF assms]
    by (simp add: historyInvariant_def refresh_history)
  then show ?thesis
    using assms by (simp add: GameController_makeMove_def split: option.splits prod.splits)
qed

lemma rebuildStep_history:
  "moveHistory (snd (rebuildStep st move)) = moveHistory (snd st)
   \<and> boardStates (snd (rebuildStep st move)) = boardStates (snd st)
   \<and> currentMoveIndex (snd (rebuildStep st move)) = currentMoveIndex (snd st)"
  by (cases st)
     (simp add: rebuildStep_def Let_def GameState_addCapturedPiece_def GameState_updateKingPosition_def
           split: prod.splits option.splits)

lemma rebuildLoop_history:
  "moveHistory (snd (foldl rebuildStep st moves)) = moveHistory (snd st)
   \<and> boardStates (snd (foldl rebuildStep st moves)) = boardStates (snd st)
   \<and> currentMoveIndex (snd (foldl rebuildStep st moves)) = currentMoveIndex (snd st)"
proof (induction moves arbitrary: st)
  case Nil
  show ?case by simp
next
  case (Cons m ms)
  show ?case using Cons.IH [of "rebuildStep st m"] rebuildStep_history [of st m] by simp
qed

lemma rebuildBoardState_history:
  "moveHistory (gameState (GameController_rebuildBoardState this i)) = moveHistory (gameState this)"
  "boardStates (gameState (GameController_rebuildBoardState this i)) = boardStates (gameState this)"
  "currentMoveIndex (gameState (GameController_rebuildBoardState this i)) = currentMoveIndex (gameState this)"
  using rebuildLoop_history [of "(Board_setupInitialPosition (board this), gameState this)"
          "take (nat i) (moveHistory (gameState this))"]
  by (auto simp: GameController_rebuildBoardState_def Let_def split: prod.splits)

lemma restoreSnapshot_gameState:
  "gameState (GameController_restoreSnapshot this i) = gameState this"
  by (simp add: GameController_restoreSnapshot_def)

lemma goToMove_history:
  "moveHistory (gameState (GameController_goToMove this i)) = moveHistory (gameState this)"
  "boardStates (gameState (GameController_goToMove this i)) = boardStates (gameState this)"
  "currentMoveIndex (gameState (GameController_goToMove this i)) =
     (if i < 0 \<or> i > int (length (moveHistory (gameState this))) then currentMoveIndex (gameState this) else i)"
  by (simp_all add: GameController_goToMove_def Let_def refresh_history rebuildBoardState_history
        restoreSnapshot_gameState)

lemma goToMove_invariant:
  "historyInvariant (gameState this) \<Longrightarrow> historyInvariant (gameState (GameController_goToMove this i))"
  by (simp add: historyInvariant_def goToMove_history)

lemma clearSelection_gameState:
  "gameState (GameController_clearSelection this) = gameState this"
  by (simp add: GameController_clearSelection_def)

lemma selectPiece_gameState:
  "gameState (GameController_selectPiece this row col) = gameState this"
  by (simp add: GameController_selectPiece_def split: option.splits)

lemma promptPromotion_invariant:
  "historyInvariant (gameState this) \<Longrightarrow>
   historyInvariant (gameState (GameController_promptPromotion this fr fc tr tc))"
  by (simp add: GameController_promptPromotion_def historyInvariant_def)

lemma handleSquareClick_invariant:
  assumes "historyInvariant (gameState this)"
  shows "historyInvariant (gameState (GameController_handleSquareClick this row col))"
  using assms makeMove_invariant [OF assms] goToMove_invariant [OF assms] promptPromotion_invariant [OF assms]
  by (simp add: GameController_handleSquareClick_def Let_def clearSelection_gameState
        selectPiece_gameState split: option.splits prod.splits)

lemma completePromotion_invariant:
  assumes "historyInvariant (gameState this)"
  shows "historyInvariant (gameState (GameController_completePromotion this k))"
proof (cases "promotionMove (gameState this)")
  case None
  then show ?thesis using assms by (simp add: GameController_completePromotion_def)
next
  case (Some m)
  obtain fr fc tr tc where m: "m = (fr, fc, tr, tc)" by (cases m) auto
  from makeMove_invariant [OF assms, of fr fc tr tc None "Some k"] Some m show ?thesis
    by (simp add: GameController_completePromotion_def Let_def historyInvariant_def)
qed

lemma initialize_invariant: "historyInvariant (gameState (GameController_initialize this))"
  by (simp add: GameController_initialize_def Let_def historyInvariant_def refresh_history)

lemma resetGame_invariant: "historyInvariant (gameState (GameController_resetGame this))"
  by (simp add: GameController_resetGame_def Let_def historyInvariant_def GameState_reset_def
        GameState_new_def clearSelection_gameState)

lemma reachable_invariant: "reachable this \<Longrightarrow> historyInvariant (gameState this)"
proof (induction rule: reachable.induct)
  case (reach_initialize this)
  show ?case by (rule initialize_invariant)
next
  case (reach_resetGame this)
  show ?case by (rule resetGame_invariant)
next
  case (reach_makeMove this fromRow fromCol toRow toCol specialMove promotionPiece)
  then show ?case by (simp add: makeMove_invariant)
next
  case (reach_goToMove this moveIndex)
  then show ?case by (simp add: goToMove_invariant)
next
  case (reach_handleSquareClick this row col)
  then show ?case by (simp add: handleSquareClick_invariant)
next
  case (reach_completePromotion this pieceType)
  then show ?case by (simp add: completePromotion_invariant)
qed

text \<open>
  C6. In every controller reachable through the operations of GameController, the list of
  snapshots is one longer than the list of moves and currentMoveIndex lies between 0 and the
  number of moves. When currentMoveIndex is below the number of moves, GameState.addMove
  keeps the first currentMoveIndex moves and the first currentMoveIndex + 1 snapshots,
  appends the new move and the new snapshot, and sets currentMoveIndex to the new number of
  moves.
\<close>

theorem history_invariant_and_append:
  assumes "reachable this"
  shows "length (boardStates (gameState this)) = length (moveHistory (gameState this)) + 1
       \<and> 0 \<le> currentMoveIndex (gameState this)
       \<and> currentMoveIndex (gameState this) \<le> int (length (moveHistory (gameState this)))
       \<and> (currentMoveIndex (gameState this) < int (length (moveHistory (gameState this))) \<longrightarrow>
            moveHistory (GameState_addMove (gameState this) move boardState)
              = take (nat (currentMoveIndex (gameState this))) (moveHistory (gameState this)) @ [move]
          \<and> boardStates (GameState_addMove (gameState this) move boardState)
              = take (nat (currentMoveIndex (gameState this)) + 1) (boardStates (gameState this)) @ [boardState]
          \<and> currentMoveIndex (GameState_addMove (gameState this) move boardState)
              = int (length (moveHistory (GameState_addMove (gameState this) move boardState))))"
proof -
  from reachable_invariant [OF assms] have inv: "historyInvariant (gameState this)" .
  then show ?thesis
    by (auto simp: historyInvariant_def addMove_history slice0_def nat_add_distrib)
qed

text \<open>
  The theorem at a concrete controller: after initialize, the move e2-e4 and goToMove(0) the
  history holds one move and two snapshots and is viewed at index 0; appending a move there
  leaves exactly that move in the history.
\<close>

theorem history_invariant_and_append_witness:
  "reachable (GameController_goToMove
      (snd (GameController_makeMove (GameController_initialize GameController_new) 6 4 4 4 None None)) 0)
   \<and> currentMoveIndex (gameState (GameController_goToMove
      (snd (GameController_makeMove (GameController_initialize GameController_new) 6 4 4 4 None None)) 0)) = 0
   \<and> length (moveHistory (gameState (GameController_goToMove
      (snd (GameController_makeMove (GameController_initialize GameController_new) 6 4 4 4 None None)) 0))) = 1
   \<and> length (boardStates (gameState (GameController_goToMove
      (snd (GameController_makeMove (GameController_initialize GameController_new) 6 4 4 4 None None)) 0))) = 2
   \<and> moveHistory (GameState_addMove (gameState (GameController_goToMove
      (snd (GameController_makeMove (GameController_initialize GameController_new) 6 4 4 4 None None)) 0))
        exampleMove Board_createEmptyGrid) = [exampleMove]
   \<and> currentMoveIndex (GameState_addMove (gameState (GameController_goToMove
      (snd (GameController_makeMove (GameController_initialize GameController_new) 6 4 4 4 None None)) 0))
        exampleMove Board_createEmptyGrid) = 1"
proof -
  define c0 where "c0 = GameController_initialize GameController_new"
  define c1 where "c1 = snd (GameController_makeMove c0 6 4 4 4 None None)"
  define w where "w = GameController_goToMove c1 0"
  have r: "reachable w"
    unfolding w_def c1_def c0_def
    by (intro reach_goToMove reach_makeMove reach_initialize)
  have sel: "selectedPiece c0 = None"
    by (simp add: c0_def GameController_initialize_def Let_def updateCheckStatus_frame)
  have bd: "board c0 = PieceFactory_createInitialBoard"
    by (simp add: c0_def GameController_initialize_def Let_def updateCheckStatus_frame
          Board_setupInitialPosition_def)
  have pc: "Board_getPiece (board c0) 6 4 = Some \<lparr>ptype = Pawn, pcolor = White, hasMoved = False\<rparr>"
    unfolding bd by code_simp
  have h0: "moveHistory (gameState c0) = []" "currentMoveIndex (gameState c0) = 0"
    by (simp_all add: c0_def GameController_initialize_def Let_def refresh_history)
  have c1: "c1 = GameController_applyEndConditions (GameController_updateCheckStatus
       (makeMove_record c0 \<lparr>ptype = Pawn, pcolor = White, hasMoved = False\<rparr> 6 4 4 4 None None))"
    unfolding c1_def using makeMove_found [OF _ pc, of 4 4 None None] sel by simp
  obtain b1 gs1 rest where sp:
    "makeMove_special (board c0) ((gameState c0)\<lparr>enPassantTarget := None\<rparr>)
       \<lparr>ptype = Pawn, pcolor = White, hasMoved = False\<rparr> 6 4 4 4 None None = (b1, gs1, rest)"
    by (metis prod_cases3)
  have len1: "length (moveHistory (gameState c1)) = 1"
    using makeMove_special_history [OF sp] sp h0
    by (auto simp: c1 refresh_history makeMove_record_def Let_def addMove_history pushCaptured_def
             split: prod.splits)
  have idx: "currentMoveIndex (gameState w) = 0" and len: "length (moveHistory (gameState w)) = 1"
    using len1 by (simp_all add: w_def goToMove_history)
  have two: "length (boardStates (gameState w)) = 2"
    using history_invariant_and_append [OF r, of exampleMove Board_createEmptyGrid] len by simp
  have app: "moveHistory (GameState_addMove (gameState w) exampleMove Board_createEmptyGrid) = [exampleMove]
      \<and> currentMoveIndex (GameState_addMove (gameState w) exampleMove Board_createEmptyGrid) = 1"
    using history_invariant_and_append [OF r, of exampleMove Board_createEmptyGrid] idx len by simp
  from r idx len two app show ?thesis
    unfolding w_def c1_def c0_def by blast
qed





section \<open>Computing the legal moves leaves the game as it was\<close>

subsection \<open>ChessGame.calculateLegalMoves: the live board is written and put back\<close>

lemma cgRestore_cgTryMove:
  "cgRestore (fst (cgTryMove this p row col toRow toCol)) (ChessGame_deepCopyBoard (cg_board this))
     (snd p) (snd (cgTryMove this p row col toRow toCol)) = this"
  by (simp add: cgRestore_def cgTryMove_def cgSetCell_def ChessGame_deepCopyBoard_def Let_def)

lemma cgLegalStep_restores: "snd (cgLegalStep p row col (acc, this) m) = this"
  by (simp add: cgLegalStep_def Let_def case_prod_beta cgRestore_cgTryMove)

lemma cgLegalFold_restores: "snd (foldl (cgLegalStep p row col) (acc, this) moves) = this"
proof (induction moves arbitrary: acc)
  case Nil
  show ?case by simp
next
  case (Cons m ms)
  obtain acc1 where "cgLegalStep p row col (acc, this) m = (acc1, this)"
    using cgLegalStep_restores [of p row col acc this m]
    by (cases "cgLegalStep p row col (acc, this) m") simp
  then show ?case
    using Cons.IH [of acc1] by simp
qed

lemma cgLegalLoop_restores: "snd (cgLegalLoop this p row col moves) = this"
  by (simp add: cgLegalLoop_def cgLegalFold_restores)

lemma ChessGame_calculateLegalMoves_restores:
  "snd (ChessGame_calculateLegalMoves this row col) = this"
  by (simp add: ChessGame_calculateLegalMoves_def cgLegalLoop_restores split: option.splits)

subsection \<open>MoveValidator.calculateLegalMoves: no simulation throws, both fields are restored\<close>

text \<open>
  The only statement of a simulation that can throw is the read of \<^verbatim>\<open>piece.color\<close> at
  the end of handleCastlingMove. It does not for a castling candidate of King.getPossibleMoves:
  the candidate keeps the row, its column is on the board and is not the column the rook
  leaves, so the king (or the rook that lands on it) is on the destination square.
\<close>

lemma Piece_clone_id: "Piece_clone p = p"
  by (simp add: Piece_clone_def)

lemma getPiece_clone: "Board_getPiece (Board_clone b) row col = Board_getPiece b row col"
  by (cases "b row col") (simp_all add: Board_getPiece_def Board_clone_def Piece_clone_id)

lemma slideMoves_plain:
  "(tr, tc, sp) \<in> set (slideMoves p b r c dr dc) \<Longrightarrow> sp = None"
proof (induction p b r c dr dc rule: slideMoves.induct)
  case (1 this b currentRow currentCol rowDir colDir)
  from "1.prems" have "(tr, tc, sp) \<in> set
     (if Board_isInBounds currentRow currentCol \<and> (rowDir \<noteq> 0 \<or> colDir \<noteq> 0)
      then (if Piece_isEmpty b currentRow currentCol
            then (currentRow, currentCol, None)
                 # slideMoves this b (currentRow + rowDir) (currentCol + colDir) rowDir colDir
            else if Piece_isOpponentPiece this b currentRow currentCol
            then [(currentRow, currentCol, None)]
            else [])
      else [])"
    by (subst (asm) slideMoves.simps) simp
  with "1.IH" show ?case
    by (auto split: if_splits)
qed



lemma rayMoves_plain: "(tr, tc, sp) \<in> set (rayMoves p b r c dirs) \<Longrightarrow> sp = None"
  by (auto simp: rayMoves_def dest: slideMoves_plain)

lemma stepMoves_plain: "(tr, tc, sp) \<in> set (stepMoves p b r c offs) \<Longrightarrow> sp = None"
  by (auto simp: stepMoves_def Let_def split: if_splits)

lemma Pawn_plain: "(tr, tc, sp) \<in> set (Pawn_getPossibleMoves p b r c gs) \<Longrightarrow> sp = None"
  by (auto simp: Pawn_getPossibleMoves_def Let_def split: if_splits)

lemma castle_candidates:
  assumes "(tr, tc, sp) \<in> set (Piece_getPossibleMoves p b row col gs)" and "isCastle sp"
  shows "tr = row \<and> ((sp = Some CastleKingside \<and> tc = col + 2 \<and> Board_isInBounds row (col + 3))
                    \<or> (sp = Some CastleQueenside \<and> tc = col - 2 \<and> Board_isInBounds row (col - 4)))"
proof (cases "ptype p")
  case King
  with assms show ?thesis
    by (auto simp: Piece_getPossibleMoves_def King_getPossibleMoves_def King_addCastlingMoves_def
          King_canCastleKingside_def King_canCastleQueenside_def Let_def isCastle_def
          dest: stepMoves_plain split: if_splits)
qed (use assms in \<open>auto simp: Piece_getPossibleMoves_def Knight_getPossibleMoves_def
        Bishop_getPossibleMoves_def Rook_getPossibleMoves_def Queen_getPossibleMoves_def isCastle_def
        dest: rayMoves_plain stepMoves_plain Pawn_plain\<close>)

lemma movePiece_cell:
  assumes "Board_isInBounds fr fc" "Board_isInBounds tr tc" "b fr fc = Some p"
  shows "snd (Board_movePiece b fr fc tr tc) r c =
           (if r = fr \<and> c = fc then None
            else if r = tr \<and> c = tc then Some (p\<lparr>hasMoved := True\<rparr>) else b r c)"
  using assms by (simp add: Board_movePiece_def Let_def setCell_def)

lemma movePiece_noop:
  "\<not> Board_isInBounds fr fc \<or> \<not> Board_isInBounds tr tc \<or> b fr fc = None \<Longrightarrow>
   snd (Board_movePiece b fr fc tr tc) = b"
  by (auto simp: Board_movePiece_def)

lemma handleCastlingMove_normal:
  assumes src: "Board_getPiece (v_board this) row col = Some p"
    and dst: "Board_isInBounds row tc" "tc \<noteq> col"
    and rook: "tc \<noteq> (if sp = Some CastleKingside then 7 else 0)"
  shows "fst (MoveValidator_handleCastlingMove this row col row tc sp) = Normal ()"
proof -
  let ?b = "v_board this"
  have inb: "Board_isInBounds row col" and cell: "?b row col = Some p"
    using src by (auto simp: Board_getPiece_def split: if_splits)
  let ?b1 = "snd (Board_movePiece ?b row col row tc)"
  let ?rf = "if sp = Some CastleKingside then 7 else (0::int)"
  let ?rt = "if sp = Some CastleKingside then 5 else (3::int)"
  let ?b2 = "snd (Board_movePiece ?b1 row ?rf row ?rt)"
  have k: "?b1 row tc = Some (p\<lparr>hasMoved := True\<rparr>)"
    using movePiece_cell [where b="?b" and fr=row and fc=col and tr=row and tc=tc and p=p and r=row and c=tc]
      inb dst cell by simp
  have "?b2 row tc \<noteq> None"
  proof (cases "Board_isInBounds row ?rf \<and> Board_isInBounds row ?rt \<and> ?b1 row ?rf \<noteq> None")
    case True
    then obtain q where q: "?b1 row ?rf = Some q" by auto
    from True have a: "Board_isInBounds row ?rf" and b: "Board_isInBounds row ?rt" by auto
    show ?thesis
      using movePiece_cell [where b="?b1" and fr=row and fc="?rf" and tr=row and tc="?rt" and p=q and r=row and c=tc]
        a b q rook k by (simp split: if_splits)
  next
    case False
    then have "?b2 = ?b1" by (intro movePiece_noop) auto
    then show ?thesis using k by simp
  qed
  then have "Board_getPiece ?b2 row tc \<noteq> None"
    using dst(1) by (simp add: Board_getPiece_def)
  then show ?thesis
    by (cases "sp = Some CastleKingside")
       (auto simp: MoveValidator_handleCastlingMove_def Let_def split: option.splits)
qed

lemma validator_eq: "(v :: MoveValidator)\<lparr>v_board := v_board this, v_gameState := v_gameState this\<rparr> = this"
  by (cases v, cases this) simp

lemma simulateMove_restores:
  assumes src: "Board_getPiece (v_board this) row col = Some p"
    and cand: "(tr, tc, sp) \<in> set (Piece_getPossibleMoves p (v_board this) row col (v_gameState this))"
  shows "\<exists>ok. MoveValidator_simulateMove this row col tr tc sp = (Normal ok, this)"
proof -
  let ?sim = "this\<lparr>v_board := Board_clone (Board_clone (v_board this)),
                     v_gameState := GameState_clone (GameState_clone (v_gameState this))\<rparr>"
  have simsrc: "Board_getPiece (v_board ?sim) row col = Some p"
    using src by (simp add: getPiece_clone)
  have inb: "Board_isInBounds row col"
    using src by (auto simp: Board_getPiece_def split: if_splits)
  have "fst (MoveValidator_makeTemporaryMove ?sim row col tr tc sp) \<noteq> Thrown"
  proof (cases "isCastle sp")
    case True
    from castle_candidates [OF cand True]
    have tr: "tr = row" and side: "(sp = Some CastleKingside \<and> tc = col + 2 \<and> Board_isInBounds row (col + 3))
                    \<or> (sp = Some CastleQueenside \<and> tc = col - 2 \<and> Board_isInBounds row (col - 4))"
      by auto
    have a: "Board_isInBounds row tc" "tc \<noteq> col" "tc \<noteq> (if sp = Some CastleKingside then 7 else 0)"
      using side inb by (auto simp: Board_isInBounds_def BOARD_SIZE_def)
    from handleCastlingMove_normal [OF simsrc a]
    show ?thesis using True tr
      by (auto simp: MoveValidator_makeTemporaryMove_def Let_def split: prod.splits completion.splits)
  next
    case False
    then show ?thesis using simsrc
      by (simp add: MoveValidator_makeTemporaryMove_def Let_def split: prod.splits)
  qed
  then obtain captured this2 where
    "MoveValidator_makeTemporaryMove ?sim row col tr tc sp = (Normal captured, this2)"
    by (cases "MoveValidator_makeTemporaryMove ?sim row col tr tc sp")
       (auto split: completion.splits, metis completion.exhaust)
  then show ?thesis using src
    by (simp add: MoveValidator_simulateMove_def Let_def validator_eq)
qed

lemma legalMovesFold_restores:
  assumes src: "Board_getPiece (v_board this) row col = Some p"
    and sub: "set moves \<subseteq> set (Piece_getPossibleMoves p (v_board this) row col (v_gameState this))"
  shows "snd (foldl (legalMovesStep row col) (acc, this) moves) = this"
  using sub
proof (induction moves arbitrary: acc)
  case Nil
  show ?case by simp
next
  case (Cons m ms)
  obtain tr tc sp where m: "m = (tr, tc, sp)" by (cases m)
  from Cons.prems m have "(tr, tc, sp) \<in> set (Piece_getPossibleMoves p (v_board this) row col (v_gameState this))"
    by simp
  from simulateMove_restores [OF src this] obtain ok where
    "MoveValidator_simulateMove this row col tr tc sp = (Normal ok, this)" by blast
  then have "legalMovesStep row col (acc, this) m = (if ok then acc @ [m] else acc, this)"
    by (simp add: legalMovesStep_def m)
  moreover have "snd (foldl (legalMovesStep row col) (if ok then acc @ [m] else acc, this) ms) = this"
    using Cons by simp
  ultimately show ?case
    by simp
qed

lemma legalMovesLoop_restores:
  assumes "Board_getPiece (v_board this) row col = Some p"
    and "set moves \<subseteq> set (Piece_getPossibleMoves p (v_board this) row col (v_gameState this))"
  shows "snd (legalMovesLoop this row col moves) = this"
  using legalMovesFold_restores [OF assms] by (simp add: legalMovesLoop_def)

lemma MoveValidator_calculateLegalMoves_restores:
  "snd (MoveValidator_calculateLegalMoves this row col) = this"
  by (simp add: MoveValidator_calculateLegalMoves_def legalMovesLoop_restores split: option.splits)



lemma playerHasLegalMovesStep_restores: "snd (playerHasLegalMovesStep c (found, this) sq) = this"
  using MoveValidator_calculateLegalMoves_restores [of this "fst sq" "snd sq"]
  by (simp add: playerHasLegalMovesStep_def case_prod_beta split: option.splits)

lemma playerHasLegalMovesFold_restores:
  "snd (foldl (playerHasLegalMovesStep c) (found, this) sqs) = this"
proof (induction sqs arbitrary: found)
  case Nil
  show ?case by simp
next
  case (Cons sq sqs)
  obtain found1 where "playerHasLegalMovesStep c (found, this) sq = (found1, this)"
    using playerHasLegalMovesStep_restores [of c found this sq]
    by (cases "playerHasLegalMovesStep c (found, this) sq") simp
  then show ?case
    using Cons.IH [of found1] by simp
qed

lemma checkGameEndConditions_restores: "snd (MoveValidator_checkGameEndConditions this) = this"
  using playerHasLegalMovesFold_restores [of "currentPlayer (v_gameState this)" False this squares]
  by (simp add: MoveValidator_checkGameEndConditions_def MoveValidator_playerHasLegalMoves_def
        Let_def case_prod_beta)

text \<open>
  C5. Computing the legal moves of a square returns with the board and the game state as
  they were before the call, in both implementations: the MoveValidator ends every
  simulation with its two fields pointing at the objects they pointed at before (and has
  written to copies only), and ChessGame, which simulates on the live board, ends every
  simulation with the cells and the king position it started from.
\<close>

theorem calculateLegalMoves_frame:
  "snd (MoveValidator_calculateLegalMoves this row col) = this
   \<and> snd (ChessGame_calculateLegalMoves game row col) = game"
  by (simp add: MoveValidator_calculateLegalMoves_restores ChessGame_calculateLegalMoves_restores)


section \<open>The attack detectors and the attack patterns\<close>

text \<open>
  C3. Neither isSquareAttacked agrees with the attack patterns on pawns. ChessGame looks for
  the attacking pawn one row from the square in the direction that pawn moves, so a black
  pawn on d2 is not seen to attack e1 and is seen to attack e3. The MoveValidator asks the
  pieces for their possible moves, and those of a pawn hold the squares straight ahead and a
  diagonal square only when there is something to capture on it: the square in front of a
  black pawn on e7 counts as attacked, the empty square f6 does not.
\<close>

theorem isSquareAttacked_differs_from_patterns_on_pawns:
  "\<not> ChessGame_isSquareAttacked (cgGameOn [((7, 4), (King, White)), ((6, 3), (Pawn, Black))]) 7 4 White
   \<and> attackedByPattern (cgBoardOf [((7, 4), (King, White)), ((6, 3), (Pawn, Black))]) 7 4 White
   \<and> ChessGame_isSquareAttacked (cgGameOn [((7, 4), (King, White)), ((6, 3), (Pawn, Black))]) 5 4 White
   \<and> \<not> attackedByPattern (cgBoardOf [((7, 4), (King, White)), ((6, 3), (Pawn, Black))]) 5 4 White
   \<and> MoveValidator_isSquareAttacked (validatorOn [((1, 4), (Pawn, Black, False))]) 2 4 White
   \<and> \<not> attackedByPattern (cellsOf (boardOf [((1, 4), (Pawn, Black, False))])) 2 4 White
   \<and> \<not> MoveValidator_isSquareAttacked (validatorOn [((1, 4), (Pawn, Black, False))]) 2 5 White
   \<and> attackedByPattern (cellsOf (boardOf [((1, 4), (Pawn, Black, False))])) 2 5 White"
  by code_simp


section \<open>Castling candidates and attacked squares\<close>

text \<open>
  C2. King.getPossibleMoves tests the castling right, the hasMoved flag, the isInCheck flag
  of the game state, the empty squares and the rook, and never asks whether the square the
  king passes or the square it lands on is attacked; the filter of the MoveValidator tests
  the final position only. With a white king on e1, a white rook on h1 and a black rook on
  f8 the candidate e1-g1 is generated and is in the legal-move set, although f1 is attacked
  (also in the eyes of the validator's own detector). ChessGame.calculateKingMoves does test
  the three squares and gives no candidate in that position; through its pawn test it still
  gives one when the black piece is a pawn on g2, which attacks f1.
\<close>

theorem castling_candidate_through_attacked_square:
  "(7, 6, Some CastleKingside)
     \<in> set (King_getPossibleMoves \<lparr>ptype = King, pcolor = White, hasMoved = False\<rparr>
              (boardOf [((7, 4), (King, White, False)), ((7, 7), (Rook, White, False)),
                        ((0, 4), (King, Black, False)), ((0, 5), (Rook, Black, True))])
              7 4 GameState_new)
   \<and> (7, 6, Some CastleKingside)
     \<in> set (fst (MoveValidator_calculateLegalMoves
                   (validatorOn [((7, 4), (King, White, False)), ((7, 7), (Rook, White, False)),
                                 ((0, 4), (King, Black, False)), ((0, 5), (Rook, Black, True))]) 7 4))
   \<and> MoveValidator_isSquareAttacked
        (validatorOn [((7, 4), (King, White, False)), ((7, 7), (Rook, White, False)),
                      ((0, 4), (King, Black, False)), ((0, 5), (Rook, Black, True))]) 7 5 White
   \<and> attackedByPattern
        (cellsOf (boardOf [((7, 4), (King, White, False)), ((7, 7), (Rook, White, False)),
                           ((0, 4), (King, Black, False)), ((0, 5), (Rook, Black, True))])) 7 5 White
   \<and> (7, 6) \<notin> set (ChessGame_calculateKingMoves
                       (cgGameOn [((7, 4), (King, White)), ((7, 7), (Rook, White)),
                                  ((0, 4), (King, Black)), ((0, 5), (Rook, Black))]) 7 4 White)
   \<and> (7, 6) \<in> set (ChessGame_calculateKingMoves
                       (cgGameOn [((7, 4), (King, White)), ((7, 7), (Rook, White)),
                                  ((0, 4), (King, Black)), ((6, 6), (Pawn, Black))]) 7 4 White)
   \<and> attackedByPattern
        (cgBoardOf [((7, 4), (King, White)), ((7, 7), (Rook, White)),
                    ((0, 4), (King, Black)), ((6, 6), (Pawn, Black))]) 7 5 White"
  by code_simp


section \<open>Capturing a rook on its corner\<close>

text \<open>
  C4. GameController.makeMove calls updateCastlingRights after the board has been updated,
  and updateCastlingRights reads the captured piece from the destination cell, where the
  capturing piece now stands. After 1.b3 g5 2.Bb2 g4 the capture Bxh8 is in the legal-move
  set and the rook on h8 has not moved; after the capture the bishop stands on h8 and black's
  king-side right is still granted. ChessGame.makeMove, which reads the captured piece before
  it writes the board, revokes the right in the same game.
\<close>

theorem captured_corner_rook_keeps_castling_right:
  "(0, 7, None) \<in> set (fst (MoveValidator_calculateLegalMoves
       (moveValidator (playMoves [(6, 1, 5, 1, None), (1, 6, 3, 6, None), (7, 2, 6, 1, None),
                                  (3, 6, 4, 6, None)])) 6 1))
   \<and> Board_getPiece (board (playMoves [(6, 1, 5, 1, None), (1, 6, 3, 6, None), (7, 2, 6, 1, None),
                                       (3, 6, 4, 6, None)])) 0 7
       = Some \<lparr>ptype = Rook, pcolor = Black, hasMoved = False\<rparr>
   \<and> Board_getPiece (board (playMoves [(6, 1, 5, 1, None), (1, 6, 3, 6, None), (7, 2, 6, 1, None),
                                       (3, 6, 4, 6, None), (6, 1, 0, 7, None)])) 0 7
       = Some \<lparr>ptype = Bishop, pcolor = White, hasMoved = True\<rparr>
   \<and> kingSide (castlingRights (gameState (playMoves [(6, 1, 5, 1, None), (1, 6, 3, 6, None),
         (7, 2, 6, 1, None), (3, 6, 4, 6, None), (6, 1, 0, 7, None)])) Black)
   \<and> \<not> kingSide (cg_castlingRights (cgPlayMoves [(6, 1, 5, 1), (1, 6, 3, 6), (7, 2, 6, 1),
         (3, 6, 4, 6), (6, 1, 0, 7)]) Black)"
  by code_simp


section \<open>Replay against snapshot\<close>

text \<open>
  C7. rebuildBoardState does not reproduce what the snapshot branch of goToMove gives. It
  sets the en-passant target to the one recorded in the move, which is the target before
  that move: after 1.e4, replaying one move leaves no en-passant target, where the snapshot
  branch leaves e3. It moves the castling rook with setPiece, which does not mark the rook as
  moved: after 1.e4 e5 2.Nf3 Nc6 3.Bc4 Bc5 4.O-O, replaying the seven moves gives a rook on f1
  with hasMoved false, where the snapshot holds it with hasMoved true.
\<close>

theorem replay_differs_from_snapshot:
  "enPassantTarget (gameState (GameController_rebuildBoardState (playMoves [(6, 4, 4, 4, None)]) 1)) = None
   \<and> enPassantTarget (gameState (GameController_restoreSnapshot (playMoves [(6, 4, 4, 4, None)]) 1))
       = Some (5, 4)
   \<and> replayAndSnapshotCell
         (playMoves [(6, 4, 4, 4, None), (1, 4, 3, 4, None), (7, 6, 5, 5, None), (0, 1, 2, 2, None),
                     (7, 5, 4, 2, None), (0, 5, 3, 2, None), (7, 4, 7, 6, Some CastleKingside)])
         7 7 5
       = (Some \<lparr>ptype = Rook, pcolor = White, hasMoved = False\<rparr>,
          Some \<lparr>ptype = Rook, pcolor = White, hasMoved = True\<rparr>)"
  by code_simp


section \<open>Requests that make no move\<close>









section \<open>Decoding a move token: which piece is chosen\<close>

text \<open>
  C9. PGNService.parseAlgebraicNotation takes the first piece of the colour and the type that
  passes the disambiguation, and does not look at its legal moves. On the initial position
  the token Nf3 is decoded as a move of the knight on b1, whose legal moves are a3 and c3;
  the knight on g1, which can go to f3, comes later in the scan. processAlgebraicNotation of
  pgn.js tests the legal moves and moves the knight from g1.
\<close>

theorem parseAlgebraicNotation_ignores_legal_moves:
  "PGNService_parseAlgebraicNotation ''Nf3'' White (board GameController_start)
       (gameState GameController_start)
     = Normal (Some \<lparr>pm_from = (7, 1), pm_to = (Some 5, Some 5), pm_pieceType = Knight,
                      pm_promotion = None, pm_capture = False, pm_castling = None,
                      pm_notation = ''f3''\<rparr>)
   \<and> fst (MoveValidator_calculateLegalMoves (moveValidator GameController_start) 7 1)
       = [(5, 0, None), (5, 2, None)]
   \<and> (5, 5, None) \<in> set (fst (MoveValidator_calculateLegalMoves (moveValidator GameController_start) 7 6))
   \<and> fst (processAlgebraicNotation ''Nf3'' ChessGame_new) = Normal True
   \<and> cg_board (snd (processAlgebraicNotation ''Nf3'' ChessGame_new)) 7 1 = Some (Knight, White)
   \<and> cg_board (snd (processAlgebraicNotation ''Nf3'' ChessGame_new)) 7 6 = None
   \<and> cg_board (snd (processAlgebraicNotation ''Nf3'' ChessGame_new)) 5 5 = Some (Knight, White)"
  by code_simp


section \<open>An accepted move that leaves the own king attacked\<close>

text \<open>
  C1. In both implementations a move of the legal-move set can leave the mover's king
  attacked.

  GameController.goToMove assigns a clone to the controller's board field, and the
  MoveValidator goes on computing on the object it was constructed with, which no move
  reaches any more. After 1.e4 e5 2.f4, a call of goToMove for the last position and the
  reply Qh4+, the validator still sees the position before the queen moved: a2-a3 is in the
  legal-move set, is applied, and the white king on e1 stays attacked by the queen. In the
  same game without the call of goToMove the move is not in the set.

  ChessGame judges the king's safety with its isSquareAttacked, which looks for pawns on the
  wrong side: after 1.e4 d5 2.Ke2 d4 the move Ke3 is in the legal-move set, and on e3 the king
  is attacked by the pawn on d4.
\<close>

theorem accepted_move_leaves_own_king_attacked:
  "leavesOwnKingAttacked
     (playMove (GameController_goToMove
                  (playMoves [(6, 4, 4, 4, None), (1, 4, 3, 4, None), (6, 5, 4, 5, None)]) 3)
               (0, 3, 4, 7, None))
     6 0 5 0 None
   \<and> \<not> leavesOwnKingAttacked
         (playMoves [(6, 4, 4, 4, None), (1, 4, 3, 4, None), (6, 5, 4, 5, None), (0, 3, 4, 7, None)])
         6 0 5 0 None
   \<and> cgLeavesOwnKingAttacked
         (cgPlayMoves [(6, 4, 4, 4), (1, 3, 3, 3), (7, 4, 6, 4), (3, 3, 4, 3)]) 6 4 5 4"
  by code_simp


end
